theory Spec2Isabelle
  imports Main
begin

section \<open>Python strings\<close>

text \<open>
  The provider works on the dataset locator, a Python \<^verbatim>\<open>str\<close>, with the operators
  \<^verbatim>\<open>in\<close>, \<^verbatim>\<open>str.replace\<close>, \<^verbatim>\<open>str.lower\<close>, \<^verbatim>\<open>str.zfill\<close>, \<^verbatim>\<open>str.split\<close>, \<^verbatim>\<open>str()\<close> of an
  integer and \<^verbatim>\<open><\<close>. Strings are \<^typ>\<open>string\<close>; the locators and tokens of this
  provider are ASCII.
\<close>

text \<open>\<^verbatim>\<open>s.startswith(t)\<close>.\<close>

fun startswith :: "string \<Rightarrow> string \<Rightarrow> bool" where
  "startswith s [] = True"
| "startswith [] (c # t) = False"
| "startswith (d # s) (c # t) = (d = c \<and> startswith s t)"

text \<open>\<^verbatim>\<open>t in s\<close>: \<open>t\<close> occurs in \<open>s\<close> as a contiguous run.\<close>

fun str_in :: "string \<Rightarrow> string \<Rightarrow> bool" where
  "str_in t [] = (t = [])"
| "str_in t (c # s) = (startswith (c # s) t \<or> str_in t s)"

text \<open>
  \<^verbatim>\<open>s.replace(old, new)\<close>: every occurrence of \<open>old\<close>, found from the left and not
  overlapping an earlier one, becomes \<open>new\<close>. With the empty \<open>old\<close> Python puts
  \<open>new\<close> before every character and at the end.
\<close>

function replace :: "string \<Rightarrow> string \<Rightarrow> string \<Rightarrow> string" where
  "replace s old new =
     (if old = [] then new @ concat (map (\<lambda>c. c # new) s)
      else (case s of
              [] \<Rightarrow> []
            | c # cs \<Rightarrow>
                if startswith s old then new @ replace (drop (length old) s) old new
                else c # replace cs old new))"
  by pat_completeness auto
termination
  by (relation "measure (\<lambda>(s, old, new). length s)") auto

declare replace.simps [simp del]

text \<open>\<^verbatim>\<open>str(n)\<close> of an integer: decimal digits, with a minus sign below zero.\<close>

definition digit_char :: "nat \<Rightarrow> char" where
  "digit_char d = ''0123456789'' ! d"

fun str_nat :: "nat \<Rightarrow> string" where
  "str_nat n = (if n < 10 then [digit_char n] else str_nat (n div 10) @ [digit_char (n mod 10)])"

declare str_nat.simps [simp del]

definition str_int :: "int \<Rightarrow> string" where
  "str_int i = (if i < 0 then CHR ''-'' # str_nat (nat (- i)) else str_nat (nat i))"

text \<open>
  \<^verbatim>\<open>s.zfill(width)\<close>: zeros are put on the left up to \<open>width\<close> characters, after a
  leading sign if there is one.
\<close>

definition zfill :: "string \<Rightarrow> nat \<Rightarrow> string" where
  "zfill s width =
     (if width \<le> length s then s
      else (case s of
              c # cs \<Rightarrow>
                if c = CHR ''+'' \<or> c = CHR ''-''
                then c # replicate (width - length s) CHR ''0'' @ cs
                else replicate (width - length s) CHR ''0'' @ s
            | [] \<Rightarrow> replicate width CHR ''0''))"

text \<open>\<^verbatim>\<open>s.lower()\<close> on ASCII.\<close>

definition lower_char :: "char \<Rightarrow> char" where
  "lower_char c =
     (case map_of (zip ''ABCDEFGHIJKLMNOPQRSTUVWXYZ'' ''abcdefghijklmnopqrstuvwxyz'') c of
        Some l \<Rightarrow> l
      | None \<Rightarrow> c)"

definition lower :: "string \<Rightarrow> string" where
  "lower s = map lower_char s"

text \<open>\<^verbatim>\<open>s.split(sep)\<close> for a separator of one character.\<close>

fun split_chr :: "char \<Rightarrow> string \<Rightarrow> string list" where
  "split_chr sep [] = [[]]"
| "split_chr sep (c # s) =
     (if c = sep then [] # split_chr sep s
      else (case split_chr sep s of
              [] \<Rightarrow> [[c]]
            | w # ws \<Rightarrow> (c # w) # ws))"

text \<open>\<^verbatim>\<open>a < b\<close> on strings: lexicographic on the code points.\<close>

fun str_lt :: "string \<Rightarrow> string \<Rightarrow> bool" where
  "str_lt [] [] = False"
| "str_lt [] (c # t) = True"
| "str_lt (d # s) [] = False"
| "str_lt (d # s) (c # t) =
     ((of_char d :: nat) < of_char c \<or> (d = c \<and> str_lt s t))"


section \<open>Errors and sequencing\<close>

text \<open>
  The three error classes of the host framework, and the Python exceptions that the
  provider lets escape without wrapping. \<open>LibraryError\<close> is an exception raised inside
  the array library; its class is the library's business, only that it is none of the
  three provider classes matters here.
\<close>

datatype error =
    ProviderConnectionError
  | ProviderNoDataError
  | ProviderQueryError
  | AttributeError
  | IndexError
  | KeyError
  | TypeError
  | ValueError
  | LibraryError

text \<open>Statement after statement: the first exception ends the block.\<close>

definition and_then :: "error + 'a \<Rightarrow> ('a \<Rightarrow> error + 'b) \<Rightarrow> error + 'b" where
  "and_then r f = (case r of Inl e \<Rightarrow> Inl e | Inr a \<Rightarrow> f a)"

text \<open>\<^verbatim>\<open>xs[0]\<close>, \<^verbatim>\<open>xs[1]\<close>, \<^verbatim>\<open>xs[-1]\<close> and \<^verbatim>\<open>xs[i]\<close>: an index outside the list raises.\<close>

definition item :: "'a list \<Rightarrow> nat \<Rightarrow> error + 'a" where
  "item xs i = (if i < length xs then Inr (xs ! i) else Inl IndexError)"

definition item_last :: "'a list \<Rightarrow> error + 'a" where
  "item_last xs = (if xs = [] then Inl IndexError else Inr (last xs))"

text \<open>\<^verbatim>\<open>d[k]\<close> on a dict held as an association list.\<close>

definition getkey :: "('k \<times> 'v) list \<Rightarrow> 'k \<Rightarrow> error + 'v" where
  "getkey d k = (case map_of d k of None \<Rightarrow> Inl KeyError | Some v \<Rightarrow> Inr v)"

section \<open>Datasets and requests\<close>

text \<open>
  What the provider reads of an open \<^verbatim>\<open>xarray.Dataset\<close>: its coordinates in order (the
  \<^verbatim>\<open>units\<close> attribute, absent or a string, and the samples), the size of each
  dimension, and its variables in order (shape and attributes). A sample is an integer:
  it stands exactly for a float64 degree value, and for a \<^verbatim>\<open>datetime64\<close> it is the
  stored count. Rounding and NaN are outside the model.
\<close>

record coord =
  units :: "string option"
  coord_values :: "int list"

record variable =
  shape :: "nat list"
  attrs :: "(string \<times> string) list"

record dataset =
  coords :: "(string \<times> coord) list"
  dims :: "(string \<times> nat) list"
  variables :: "(string \<times> variable) list"

text \<open>
  The values of a request as the host framework types them: a string or an integer.
  A subset is a list of them; a selector of the label-based selection is a slice
  between two of them or one label.
\<close>

datatype pyval = PStr string | PInt int

datatype selector = Slice pyval pyval | Label pyval

section \<open>The provider and what a query returns\<close>

text \<open>
  The path and the optional axis field names that \<^verbatim>\<open>BaseProvider.__init__\<close> copies from
  the provider definition.
\<close>

record provider_def =
  def_data :: string
  def_x_field :: "string option"
  def_y_field :: "string option"
  def_time_field :: "string option"

text \<open>The dict built by \<^verbatim>\<open>_get_coverage_properties\<close>, key by key.\<close>

record coverage_properties =
  bbox :: "int list"
  time_range :: "string option list"
  bbox_crs :: string
  crs_type :: string
  x_axis_label :: string
  y_axis_label :: string
  time_axis_label :: string
  width :: nat
  height :: nat
  time :: nat
  time_duration :: string
  bbox_units :: string
  resx :: int
  resy :: int
  restime :: "(int \<times> string) option"
  inverse_flattening :: "string option"
  prop_axes :: "string list"
  prop_fields :: "string list"

text \<open>
  The provider object after construction. \<open>handle\<close> is the attribute \<^verbatim>\<open>_data\<close>, which is
  \<^verbatim>\<open>None\<close> after a failed open; the axis fields are strings, since construction fails
  on one that stays \<^verbatim>\<open>None\<close>; \<open>field_list\<close> is the attribute \<^verbatim>\<open>fields\<close>. \<open>opened\<close> is no attribute of the object: it lists the
  locators passed to \<^verbatim>\<open>open_data\<close> so far, oldest first.
\<close>

record provider =
  data :: string
  handle :: "dataset option"
  x_field :: string
  y_field :: string
  time_field :: string
  coverage_properties :: coverage_properties
  axes :: "string list"
  field_list :: "string list"
  opened :: "string list"

text \<open>The dict \<^verbatim>\<open>out_meta\<close>.\<close>

record out_meta =
  out_bbox :: "int list"
  out_time :: "string option list"
  out_driver :: string
  out_height :: nat
  out_width :: nat
  out_time_steps :: nat
  out_variables :: "(string \<times> (string \<times> string) list) list"

text \<open>
  What an encoder returns is kept as an opaque text. What a query returns is named after
  the call in its \<^verbatim>\<open>return\<close> statement: the two returns of the fast path,
  \<^verbatim>\<open>_get_zarr_data(self._data)\<close> and \<^verbatim>\<open>read_data(self.data)\<close>, are \<open>Native_zarr\<close> and
  \<open>Native_data\<close>; after subsetting, \<^verbatim>\<open>self.gen_covjson(out_meta, data, range_subset)\<close>,
  \<^verbatim>\<open>_get_zarr_data(data)\<close> and the bytes of \<^verbatim>\<open>data.to_netcdf()\<close> are \<open>Covjson\<close>, \<open>Zarr\<close>
  and \<open>Netcdf\<close>.
\<close>

type_synonym encoded = string

datatype response =
    Native_zarr encoded
  | Native_data encoded
  | Covjson encoded
  | Zarr encoded
  | Netcdf encoded

section \<open>The array library and the host framework\<close>

text \<open>
  The operations of the array library and of the generic provider that this module
  calls. They are parameters of the model; \<open>None\<close> is a raised exception.
  \<^item> \<open>open_mfdataset\<close>: \<^verbatim>\<open>xarray.open_mfdataset(locator)\<close>;
  \<^item> \<open>convert_float32_to_float64\<close>: the precision pass applied after opening;
  \<^item> \<open>getitem\<close>: \<^verbatim>\<open>dataset[[names]]\<close>, the dataset narrowed to the named variables;
  \<^item> \<open>loc\<close>: \<^verbatim>\<open>dataset.loc[query_params]\<close>, the label-based selection;
  \<^item> \<open>astype_M\<close>, \<open>astype_Y\<close>: the casts
    \<^verbatim>\<open>.astype('datetime64[M]').astype(int)\<close> and \<^verbatim>\<open>.astype('datetime64[Y]').astype(int)\<close>
    of a time sample, months and years since the epoch as int64;
  \<^item> \<open>get_time_coverage_duration\<close>: the inherited method, on the dataset and the
    time field;
  \<^item> \<open>get_zarr_data\<close>: \<^verbatim>\<open>_get_zarr_data\<close>, on a dataset or on the \<^verbatim>\<open>None\<close> of a failed
    open;
  \<^item> \<open>read_data\<close>: \<^verbatim>\<open>read_data(locator)\<close>, the bytes of the file;
  \<^item> \<open>gen_covjson\<close>: the inherited method, on the provider object and its three
    arguments;
  \<^item> \<open>to_netcdf\<close>: \<^verbatim>\<open>data.to_netcdf()\<close>, whose bytes are written to a temporary file
    and read back.
\<close>

record env =
  open_mfdataset :: "string \<Rightarrow> dataset option"
  convert_float32_to_float64 :: "dataset \<Rightarrow> dataset option"
  getitem :: "dataset \<Rightarrow> string list \<Rightarrow> dataset option"
  loc :: "dataset \<Rightarrow> (string \<rightharpoonup> selector) \<Rightarrow> dataset option"
  astype_M :: "int \<Rightarrow> int option"
  astype_Y :: "int \<Rightarrow> int option"
  get_time_coverage_duration :: "dataset \<Rightarrow> string \<Rightarrow> string option"
  get_zarr_data :: "dataset option \<Rightarrow> encoded option"
  read_data :: "string \<Rightarrow> encoded option"
  gen_covjson :: "provider \<Rightarrow> out_meta \<Rightarrow> dataset \<Rightarrow> string list \<Rightarrow> encoded option"
  to_netcdf :: "dataset \<Rightarrow> encoded option"

text \<open>The outcome of such a call: its value, or the exception of the library.\<close>

definition returned :: "'a option \<Rightarrow> error + 'a" where
  "returned r = (case r of None \<Rightarrow> Inl LibraryError | Some a \<Rightarrow> Inr a)"

text \<open>Arithmetic on \<^verbatim>\<open>numpy.int64\<close> wraps around.\<close>

definition int64 :: "int \<Rightarrow> int" where
  "int64 i = (i + 2 ^ 63) mod 2 ^ 64 - 2 ^ 63"

section \<open>The dataset resolver\<close>

text \<open>
  \<^verbatim>\<open>open_data\<close> opens the locator and applies the precision pass. Its \<^verbatim>\<open>except\<close> clause
  logs the exception and falls off the end of the function: the caller receives
  \<^verbatim>\<open>None\<close>, here \<open>None\<close>, and no exception.
\<close>

definition open_data :: "env \<Rightarrow> string \<Rightarrow> dataset option" where
  "open_data e locator =
     (case open_mfdataset e locator of
        None \<Rightarrow> None
      | Some d \<Rightarrow> convert_float32_to_float64 e d)"

section \<open>The datetime normalizer\<close>

text \<open>
  \<^verbatim>\<open>_to_datetime_string\<close>. The result is \<open>None\<close> where the Python function logs the
  exception and returns nothing.
\<close>

definition to_datetime_string :: "env \<Rightarrow> string \<Rightarrow> int \<Rightarrow> string option" where
  "to_datetime_string e locator datetime =
     (if str_in ''monthly_ens'' locator then
        (case astype_M e datetime of
           None \<Rightarrow> None
         | Some m \<Rightarrow>
             (let month = int64 (m mod 12 + 1) in
              case astype_Y e datetime of
                None \<Rightarrow> None
              | Some y \<Rightarrow>
                  (let year = int64 (y + 1970) in
                   Some (str_int year @ ''-'' @ zfill (str_int month) 2))))
      else
        (case astype_Y e datetime of
           None \<Rightarrow> None
         | Some y \<Rightarrow> Some (str_int (int64 (y + 1970)))))"


section \<open>Coverage properties and construction\<close>

text \<open>
  The loop over the coordinates: a coordinate named \<^verbatim>\<open>time\<close> in any case is the time
  axis; otherwise its \<^verbatim>\<open>units\<close> attribute is read, which raises when it is missing. A
  later coordinate of the same role replaces an earlier one.
\<close>

fun find_axes ::
  "(string \<times> coord) list \<Rightarrow> string option \<times> string option \<times> string option \<Rightarrow>
   error + (string option \<times> string option \<times> string option)" where
  "find_axes [] vars = Inr vars"
| "find_axes ((name, c) # rest) (time_var, y_var, x_var) =
     (if lower name = ''time'' then find_axes rest (Some name, y_var, x_var)
      else (case units c of
              None \<Rightarrow> Inl KeyError
            | Some u \<Rightarrow>
                if u = ''degrees_north'' then find_axes rest (time_var, Some name, x_var)
                else if u = ''degrees_east'' then find_axes rest (time_var, y_var, Some name)
                else find_axes rest (time_var, y_var, x_var)))"

text \<open>
  \<^verbatim>\<open>get_time_resolution\<close>: \<^verbatim>\<open>self._data[self.time_field].size\<close> is the number of elements
  of the variable of that name.
\<close>

definition get_time_resolution ::
  "string \<Rightarrow> dataset \<Rightarrow> string \<Rightarrow> error + (int \<times> string) option" where
  "get_time_resolution locator ds tf =
     and_then (getkey (variables ds) tf) (\<lambda>v.
       if 1 < prod_list (shape v)
       then Inr (Some (1, if str_in ''monthly_ens'' locator then ''month'' else ''year''))
       else Inr None)"

text \<open>The names of the variables of rank three and more, in the order of the dataset.\<close>

definition rank_ge_3 :: "dataset \<Rightarrow> string \<Rightarrow> bool" where
  "rank_ge_3 ds name =
     (case map_of (variables ds) name of
        None \<Rightarrow> False
      | Some v \<Rightarrow> 3 \<le> length (shape v))"

definition fields_of :: "dataset \<Rightarrow> string list" where
  "fields_of ds = filter (rank_ge_3 ds) (map fst (variables ds))"

text \<open>\<^verbatim>\<open>d[k]\<close> where the key may be \<^verbatim>\<open>None\<close>, which no dataset has.\<close>

definition getkey_opt :: "(string \<times> 'v) list \<Rightarrow> string option \<Rightarrow> error + 'v" where
  "getkey_opt d k = (case k of None \<Rightarrow> Inl KeyError | Some name \<Rightarrow> getkey d name)"

text \<open>The attribute \<^verbatim>\<open>self._data.crs.<name>\<close> of the variable \<^verbatim>\<open>crs\<close>.\<close>

definition getattr :: "variable \<Rightarrow> string \<Rightarrow> error + string" where
  "getattr v name =
     (case map_of (attrs v) name of None \<Rightarrow> Inl AttributeError | Some a \<Rightarrow> Inr a)"

text \<open>
  \<^verbatim>\<open>_get_coverage_properties\<close> in its four steps. The first is the dict literal, whose
  values are computed in the order of the keys, with the axis fields as they stand after
  the defaults from the loop; a field that is still \<^verbatim>\<open>None\<close> is no key of the dataset.
\<close>

definition base_properties ::
  "env \<Rightarrow> string \<Rightarrow> dataset \<Rightarrow> string option \<Rightarrow> string option \<Rightarrow> string option \<Rightarrow>
   error + coverage_properties" where
  "base_properties e locator ds xf yf tf =
     and_then (getkey_opt (coords ds) xf) (\<lambda>cx.
     and_then (item (coord_values cx) 0) (\<lambda>x0.
     and_then (getkey_opt (coords ds) yf) (\<lambda>cy.
     and_then (item (coord_values cy) 0) (\<lambda>y0.
     and_then (item_last (coord_values cx)) (\<lambda>xn.
     and_then (item_last (coord_values cy)) (\<lambda>yn.
     and_then (getkey_opt (coords ds) tf) (\<lambda>ct.
     and_then (item (coord_values ct) 0) (\<lambda>t0.
     and_then (item_last (coord_values ct)) (\<lambda>tn.
     and_then (getkey_opt (dims ds) xf) (\<lambda>w.
     and_then (getkey_opt (dims ds) yf) (\<lambda>ht.
     and_then (getkey_opt (dims ds) tf) (\<lambda>nt.
     and_then (case get_time_coverage_duration e ds (the tf) of
                 None \<Rightarrow> Inl LibraryError
               | Some dur \<Rightarrow> Inr dur) (\<lambda>dur.
     and_then (item (coord_values cx) 1) (\<lambda>x1.
     and_then (item (coord_values cy) 1) (\<lambda>y1.
     and_then (get_time_resolution locator ds (the tf)) (\<lambda>rt.
       Inr \<lparr>bbox = [x0, y0, xn, yn],
            time_range = [to_datetime_string e locator t0, to_datetime_string e locator tn],
            bbox_crs = ''http://www.opengis.net/def/crs/OGC/1.3/CRS84'',
            crs_type = ''GeographicCRS'',
            x_axis_label = the xf,
            y_axis_label = the yf,
            time_axis_label = the tf,
            width = w,
            height = ht,
            time = nt,
            time_duration = dur,
            bbox_units = ''degrees'',
            resx = abs (x1 - x0),
            resy = abs (y1 - y0),
            restime = rt,
            inverse_flattening = None,
            prop_axes = [],
            prop_fields = []\<rparr>
     ))))))))))))))))"

text \<open>The block for a dataset that has a variable \<^verbatim>\<open>crs\<close>.\<close>

definition crs_properties :: "dataset \<Rightarrow> coverage_properties \<Rightarrow> error + coverage_properties" where
  "crs_properties ds properties =
     (case map_of (variables ds) ''crs'' of
        None \<Rightarrow> Inr properties
      | Some crs \<Rightarrow>
          and_then (getattr crs ''epsg_code'') (\<lambda>code.
          and_then (getattr crs ''inverse_flattening'') (\<lambda>inv.
            Inr (properties
                  \<lparr>bbox_crs := ''http://www.opengis.net/def/crs/OGC/1.3/'' @ ''/'' @ code,
                   inverse_flattening := Some inv,
                   crs_type := ''ProjectedCRS''\<rparr>))))"

text \<open>The keys \<^verbatim>\<open>axes\<close> and \<^verbatim>\<open>fields\<close>, added last.\<close>

definition axes_and_fields :: "dataset \<Rightarrow> coverage_properties \<Rightarrow> coverage_properties" where
  "axes_and_fields ds properties =
     properties
       \<lparr>prop_axes := [x_axis_label properties, y_axis_label properties,
                      time_axis_label properties],
        prop_fields := fields_of ds\<rparr>"

text \<open>
  The whole function, with the resolved axis fields returned beside the dict. Reading
  \<^verbatim>\<open>.coords\<close> of the \<^verbatim>\<open>None\<close> left by a failed open raises.
\<close>

definition get_coverage_properties ::
  "env \<Rightarrow> string \<Rightarrow> dataset option \<Rightarrow> string option \<Rightarrow> string option \<Rightarrow> string option \<Rightarrow>
   error + (coverage_properties \<times> string \<times> string \<times> string)" where
  "get_coverage_properties e locator h xf0 yf0 tf0 =
     (case h of
        None \<Rightarrow> Inl AttributeError
      | Some ds \<Rightarrow>
          and_then (find_axes (coords ds) (None, None, None)) (\<lambda>(time_var, y_var, x_var).
            let xf = (case xf0 of None \<Rightarrow> x_var | Some f \<Rightarrow> Some f);
                yf = (case yf0 of None \<Rightarrow> y_var | Some f \<Rightarrow> Some f);
                tf = (case tf0 of None \<Rightarrow> time_var | Some f \<Rightarrow> Some f)
            in
            and_then (base_properties e locator ds xf yf tf) (\<lambda>properties.
            and_then (crs_properties ds properties) (\<lambda>properties.
              Inr (axes_and_fields ds properties, the xf, the yf, the tf)))))"

text \<open>
  \<^verbatim>\<open>__init__\<close>: whatever is raised while the dataset is opened and its properties are
  derived is raised again as a connection error.
\<close>

definition init :: "env \<Rightarrow> provider_def \<Rightarrow> error + provider" where
  "init e d =
     (let h = open_data e (def_data d) in
      case get_coverage_properties e (def_data d) h
             (def_x_field d) (def_y_field d) (def_time_field d) of
        Inl err \<Rightarrow> Inl ProviderConnectionError
      | Inr (properties, xf, yf, tf) \<Rightarrow>
          Inr \<lparr>data = def_data d,
               handle = h,
               x_field = xf,
               y_field = yf,
               time_field = tf,
               coverage_properties = properties,
               axes = [x_axis_label properties, y_axis_label properties,
                       time_axis_label properties]
                      @ (if str_in ''RCP'' (def_data d) then [''scenario''] else [])
                      @ (if str_in ''season'' (def_data d) then [''season''] else [])
                      @ (if \<not> str_in ''avg_20years'' (def_data d) then [''percentile''] else []),
               field_list = prop_fields properties,
               opened = [def_data d]\<rparr>)"


section \<open>The facet pass of a query\<close>

text \<open>
  \<^verbatim>\<open>subsets\<close> is a dict from axis names to lists of values, held in insertion order.
\<close>

type_synonym subsets = "(string \<times> pyval list) list"

definition has_key :: "(string \<times> 'v) list \<Rightarrow> string \<Rightarrow> bool" where
  "has_key d k = (map_of d k \<noteq> None)"

definition pop :: "(string \<times> 'v) list \<Rightarrow> string \<Rightarrow> (string \<times> 'v) list" where
  "pop d k = filter (\<lambda>kv. fst kv \<noteq> k) d"

text \<open>\<^verbatim>\<open>str(v)\<close>, and the method \<^verbatim>\<open>v.replace\<close>, which only a string has.\<close>

fun str :: "pyval \<Rightarrow> string" where
  "str (PStr s) = s"
| "str (PInt i) = str_int i"

fun replace_method :: "pyval \<Rightarrow> string \<Rightarrow> string \<Rightarrow> error + string" where
  "replace_method (PStr s) old new = Inr (replace s old new)"
| "replace_method (PInt i) old new = Inl AttributeError"

text \<open>
  The two statements \<^verbatim>\<open>self.data = ...\<close> and \<^verbatim>\<open>self._data = open_data(self.data)\<close> that
  follow each substitution.
\<close>

definition reopen :: "env \<Rightarrow> provider \<Rightarrow> string \<Rightarrow> provider" where
  "reopen e p locator =
     p\<lparr>data := locator, handle := open_data e locator, opened := opened p @ [locator]\<rparr>"

text \<open>An \<^verbatim>\<open>except Exception\<close> clause that raises a query error in place of what it caught.\<close>

definition as_query_error :: "error + 'a \<Rightarrow> error + 'a" where
  "as_query_error r = (case r of Inl err \<Rightarrow> Inl ProviderQueryError | Inr a \<Rightarrow> Inr a)"

text \<open>The bodies of the three \<^verbatim>\<open>try\<close> blocks.\<close>

definition scenario_body :: "env \<Rightarrow> provider \<Rightarrow> pyval list \<Rightarrow> error + provider" where
  "scenario_body e p scenario =
     (if 1 < length scenario then Inl ProviderQueryError
      else
        and_then (item scenario 0) (\<lambda>v.
          if v \<notin> set [PStr ''RCP2.6'', PStr ''hist''] then
            and_then (replace_method v ''RCP'' []) (\<lambda>scenario_value.
              Inr (reopen e p (replace (data p) ''2.6'' scenario_value)))
          else Inr p))"

definition percentile_body :: "env \<Rightarrow> provider \<Rightarrow> pyval list \<Rightarrow> error + provider" where
  "percentile_body e p percentile =
     (if percentile \<noteq> [PInt 50] then
        and_then (item percentile 0) (\<lambda>v.
          Inr (reopen e p (replace (data p) ''pctl50'' (''pctl'' @ str v))))
      else Inr p)"

definition season_body :: "env \<Rightarrow> provider \<Rightarrow> pyval list \<Rightarrow> error + provider" where
  "season_body e p seasonal =
     (if 1 < length seasonal then Inl ProviderQueryError
      else if seasonal \<noteq> [PStr ''DJF''] then
        and_then (item seasonal 0) (\<lambda>v.
          Inr (reopen e p (replace (data p) ''DJF'' (str v))))
      else Inr p)"

text \<open>
  One facet: when its key is in \<^verbatim>\<open>subsets\<close> the body runs, any exception becomes a query
  error, and the key is popped.
\<close>

definition facet ::
  "string \<Rightarrow> (provider \<Rightarrow> pyval list \<Rightarrow> error + provider) \<Rightarrow> provider \<Rightarrow> subsets \<Rightarrow>
   error + (provider \<times> subsets)" where
  "facet key body p subs =
     (case map_of subs key of
        None \<Rightarrow> Inr (p, subs)
      | Some val \<Rightarrow>
          and_then (as_query_error (body p val)) (\<lambda>p'. Inr (p', pop subs key)))"

text \<open>
  Scenario, then percentile, then season. The provider is returned beside the outcome:
  what an earlier facet has written stays written when a later one raises.
\<close>

definition facet_pass :: "env \<Rightarrow> provider \<Rightarrow> subsets \<Rightarrow> provider \<times> (error + subsets)" where
  "facet_pass e p subs =
     (case facet ''scenario'' (scenario_body e) p subs of
        Inl err \<Rightarrow> (p, Inl err)
      | Inr (p1, subs1) \<Rightarrow>
          (case facet ''percentile'' (percentile_body e) p1 subs1 of
             Inl err \<Rightarrow> (p1, Inl err)
           | Inr (p2, subs2) \<Rightarrow>
               (case facet ''season'' (season_body e) p2 subs2 of
                  Inl err \<Rightarrow> (p2, Inl err)
                | Inr (p3, subs3) \<Rightarrow> (p3, Inr subs3))))"

section \<open>Subsetting\<close>

text \<open>One turn of the loop over \<^verbatim>\<open>subsets.items()\<close>: the slice of one named axis.\<close>

definition subset_slice :: "dataset \<Rightarrow> string \<Rightarrow> pyval list \<Rightarrow> error + selector" where
  "subset_slice d key val =
     and_then (getkey (coords d) key) (\<lambda>c.
     and_then (item (coord_values c) 0) (\<lambda>first.
     and_then (item_last (coord_values c)) (\<lambda>final.
       if first > final then
         and_then (item val 1) (\<lambda>v1.
         and_then (item val 0) (\<lambda>v0. Inr (Slice v1 v0)))
       else
         and_then (item val 0) (\<lambda>v0.
         and_then (item val 1) (\<lambda>v1. Inr (Slice v0 v1))))))"

fun subset_slices ::
  "dataset \<Rightarrow> subsets \<Rightarrow> (string \<rightharpoonup> selector) \<Rightarrow> error + (string \<rightharpoonup> selector)" where
  "subset_slices d [] query_params = Inr query_params"
| "subset_slices d ((key, val) # rest) query_params =
     (case subset_slice d key val of
        Inl err \<Rightarrow> Inl err
      | Inr sl \<Rightarrow> subset_slices d rest (query_params(key \<mapsto> sl)))"

text \<open>The \<^verbatim>\<open>if bbox:\<close> block.\<close>

definition bbox_slices ::
  "provider \<Rightarrow> subsets \<Rightarrow> pyval list \<Rightarrow> (string \<rightharpoonup> selector) \<Rightarrow>
   error + (string \<rightharpoonup> selector)" where
  "bbox_slices p subs box query_params =
     (if box \<noteq> [] then
        if has_key subs (x_axis_label (coverage_properties p))
           \<and> has_key subs (y_axis_label (coverage_properties p))
           \<and> 0 < length box
        then Inl ProviderQueryError
        else
          and_then (item box 0) (\<lambda>b0.
          and_then (item box 2) (\<lambda>b2.
          and_then (item box 3) (\<lambda>b3.
          and_then (item box 1) (\<lambda>b1.
            Inr (query_params
                  (x_axis_label (coverage_properties p) \<mapsto> Slice b0 b2,
                   y_axis_label (coverage_properties p) \<mapsto> Slice b3 b1))))))
      else Inr query_params)"

text \<open>
  The \<^verbatim>\<open>if datetime_ is not None:\<close> block. Unpacking the split into two names raises
  unless it gives two parts.
\<close>

definition datetime_slices ::
  "provider \<Rightarrow> subsets \<Rightarrow> string option \<Rightarrow> (string \<rightharpoonup> selector) \<Rightarrow>
   error + (string \<rightharpoonup> selector)" where
  "datetime_slices p subs datetime query_params =
     (case datetime of
        None \<Rightarrow> Inr query_params
      | Some dt \<Rightarrow>
          if has_key subs (time_axis_label (coverage_properties p))
          then Inl ProviderQueryError
          else if str_in ''/'' dt then
            (case split_chr CHR ''/'' dt of
               [start, stop] \<Rightarrow>
                 if str_lt start stop
                 then Inr (query_params(time_field p \<mapsto> Slice (PStr start) (PStr stop)))
                 else Inr (query_params(time_field p \<mapsto> Slice (PStr stop) (PStr start)))
             | _ \<Rightarrow> Inl ValueError)
          else Inr (query_params(time_field p \<mapsto> Label (PStr dt))))"

text \<open>The mapping \<^verbatim>\<open>query_params\<close> as it stands when the selection is applied.\<close>

definition build_query_params ::
  "provider \<Rightarrow> dataset \<Rightarrow> subsets \<Rightarrow> pyval list \<Rightarrow> string option \<Rightarrow>
   error + (string \<rightharpoonup> selector)" where
  "build_query_params p d subs box datetime =
     and_then (subset_slices d subs Map.empty) (\<lambda>qp1.
     and_then (bbox_slices p subs box qp1) (\<lambda>qp2.
     datetime_slices p subs datetime qp2))"

text \<open>The condition of the subsetting block.\<close>

definition wants_subset :: "provider \<Rightarrow> subsets \<Rightarrow> pyval list \<Rightarrow> string option \<Rightarrow> bool" where
  "wants_subset p subs box datetime =
     (has_key subs (x_axis_label (coverage_properties p))
      \<or> has_key subs (y_axis_label (coverage_properties p))
      \<or> has_key subs (time_axis_label (coverage_properties p))
      \<or> box \<noteq> []
      \<or> datetime \<noteq> None)"

text \<open>
  From \<^verbatim>\<open>data = self._data[[*range_subset]]\<close> to the end of the subsetting block.
  Indexing the \<^verbatim>\<open>None\<close> of a failed open raises \<^verbatim>\<open>TypeError\<close>; only the selection
  itself is inside a \<^verbatim>\<open>try\<close>.
\<close>

definition select_data ::
  "env \<Rightarrow> provider \<Rightarrow> string list \<Rightarrow> subsets \<Rightarrow> pyval list \<Rightarrow> string option \<Rightarrow>
   error + dataset" where
  "select_data e p range_subset subs box datetime =
     (case handle p of
        None \<Rightarrow> Inl TypeError
      | Some ds \<Rightarrow>
          (case getitem e ds range_subset of
             None \<Rightarrow> Inl LibraryError
           | Some d \<Rightarrow>
               if wants_subset p subs box datetime then
                 and_then (build_query_params p d subs box datetime) (\<lambda>query_params.
                   case loc e d query_params of
                     None \<Rightarrow> Inl ProviderQueryError
                   | Some d' \<Rightarrow> Inr d')
               else Inr d))"


section \<open>The query\<close>

text \<open>
  The emptiness check. Both sizes are read before either is tested, so both
  coordinates must be there.
\<close>

definition check_no_data :: "provider \<Rightarrow> dataset \<Rightarrow> error + unit" where
  "check_no_data p d =
     and_then (getkey (coords d) (x_field p)) (\<lambda>cx.
     and_then (getkey (coords d) (y_field p)) (\<lambda>cy.
       if length (coord_values cx) = 0 \<or> length (coord_values cy) = 0
       then Inl ProviderNoDataError
       else Inr ()))"

text \<open>The metadata of the result.\<close>

definition make_out_meta :: "env \<Rightarrow> provider \<Rightarrow> dataset \<Rightarrow> error + out_meta" where
  "make_out_meta e p d =
     and_then (getkey (coords d) (x_field p)) (\<lambda>cx.
     and_then (item (coord_values cx) 0) (\<lambda>x0.
     and_then (getkey (coords d) (y_field p)) (\<lambda>cy.
     and_then (item (coord_values cy) 0) (\<lambda>y0.
     and_then (item_last (coord_values cx)) (\<lambda>xn.
     and_then (item_last (coord_values cy)) (\<lambda>yn.
     and_then (getkey (coords d) (time_field p)) (\<lambda>ct.
     and_then (item (coord_values ct) 0) (\<lambda>t0.
     and_then (item_last (coord_values ct)) (\<lambda>tn.
     and_then (getkey (dims d) (y_field p)) (\<lambda>h.
     and_then (getkey (dims d) (x_field p)) (\<lambda>w.
     and_then (getkey (dims d) (time_field p)) (\<lambda>n.
       Inr \<lparr>out_bbox = [x0, y0, xn, yn],
            out_time = [to_datetime_string e (data p) t0, to_datetime_string e (data p) tn],
            out_driver = ''xarray'',
            out_height = h,
            out_width = w,
            out_time_steps = n,
            out_variables = map (\<lambda>(var_name, var). (var_name, attrs var)) (variables d)\<rparr>
     ))))))))))))"

text \<open>
  The choice of the encoder. Each encoder may raise. \<^verbatim>\<open>gen_covjson\<close> is a method: it is
  given the object, that is the provider without the log of opened locators.
\<close>

definition encode ::
  "env \<Rightarrow> provider \<Rightarrow> string \<Rightarrow> out_meta \<Rightarrow> dataset \<Rightarrow> string list \<Rightarrow> error + response" where
  "encode e p fmt meta d range_subset =
     (if fmt = ''json'' then
        and_then (returned (gen_covjson e (p\<lparr>opened := []\<rparr>) meta d range_subset))
          (\<lambda>c. Inr (Covjson c))
      else if fmt = ''zarr'' then
        and_then (returned (get_zarr_data e (Some d))) (\<lambda>z. Inr (Zarr z))
      else
        and_then (returned (to_netcdf e d)) (\<lambda>b. Inr (Netcdf b)))"

text \<open>From the emptiness check to the \<^verbatim>\<open>return\<close>.\<close>

definition respond ::
  "env \<Rightarrow> provider \<Rightarrow> dataset \<Rightarrow> string \<Rightarrow> string list \<Rightarrow> error + response" where
  "respond e p d fmt range_subset =
     and_then (check_no_data p d) (\<lambda>u.
     and_then (make_out_meta e p d) (\<lambda>meta.
       encode e p fmt meta d range_subset))"

text \<open>The condition of the fast path, on the subsets left by the facet pass.\<close>

definition fast_path :: "string list \<Rightarrow> subsets \<Rightarrow> string \<Rightarrow> bool" where
  "fast_path range_subset subs fmt = (range_subset = [] \<and> subs = [] \<and> fmt \<noteq> ''json'')"

text \<open>The two returns of the fast path, on the handle and the locator as they stand.\<close>

definition native :: "env \<Rightarrow> provider \<Rightarrow> string \<Rightarrow> error + response" where
  "native e p fmt =
     (if fmt = ''zarr'' then
        and_then (returned (get_zarr_data e (handle p))) (\<lambda>z. Inr (Native_zarr z))
      else
        and_then (returned (read_data e (data p))) (\<lambda>b. Inr (Native_data b)))"

text \<open>
  \<^verbatim>\<open>query\<close>, with every argument given. The result is what is returned or raised, and
  the provider as the call leaves it.
\<close>

definition query ::
  "env \<Rightarrow> provider \<Rightarrow> string list \<Rightarrow> subsets \<Rightarrow> pyval list \<Rightarrow> string option \<Rightarrow> string \<Rightarrow>
   (error + response) \<times> provider" where
  "query e p range_subset subs box datetime fmt =
     (case facet_pass e p subs of
        (p', Inl err) \<Rightarrow> (Inl err, p')
      | (p', Inr subs') \<Rightarrow>
          if fast_path range_subset subs' fmt then (native e p' fmt, p')
          else
            (and_then (select_data e p' range_subset subs' box datetime) (\<lambda>d.
               respond e p' d fmt range_subset),
             p'))"

text \<open>
  The call as the host writes it: an argument left out takes the default of the
  signature, \<^verbatim>\<open>range_subset=['tas'], subsets={}, bbox=[], datetime_=None, format_='json'\<close>.
\<close>

record arguments =
  arg_range_subset :: "string list option"
  arg_subsets :: "subsets option"
  arg_bbox :: "pyval list option"
  arg_datetime :: "string option"
  arg_format :: "string option"

definition range_subset_of :: "arguments \<Rightarrow> string list" where
  "range_subset_of a = (case arg_range_subset a of None \<Rightarrow> [''tas''] | Some r \<Rightarrow> r)"

definition subsets_of :: "arguments \<Rightarrow> subsets" where
  "subsets_of a = (case arg_subsets a of None \<Rightarrow> [] | Some s \<Rightarrow> s)"

definition bbox_of :: "arguments \<Rightarrow> pyval list" where
  "bbox_of a = (case arg_bbox a of None \<Rightarrow> [] | Some b \<Rightarrow> b)"

definition format_of :: "arguments \<Rightarrow> string" where
  "format_of a = (case arg_format a of None \<Rightarrow> ''json'' | Some f \<Rightarrow> f)"

definition call_query :: "env \<Rightarrow> provider \<Rightarrow> arguments \<Rightarrow> (error + response) \<times> provider" where
  "call_query e p a =
     query e p (range_subset_of a) (subsets_of a) (bbox_of a) (arg_datetime a) (format_of a)"


section \<open>Reachable providers\<close>

text \<open>
  The providers that exist in an environment: one is constructed, and every query,
  whatever it returns or raises, leaves one behind.
\<close>

inductive reachable :: "env \<Rightarrow> provider \<Rightarrow> bool" for e :: env where
  constructed: "init e d = Inr p \<Longrightarrow> reachable e p"
| queried: "reachable e p \<Longrightarrow>
     reachable e (snd (query e p range_subset subs box datetime fmt))"

text \<open>
  What a query may change of a provider: the locator, the handle and the log of opened
  locators, and a handle that was opened from the locator stays one.
\<close>

definition kept :: "env \<Rightarrow> provider \<Rightarrow> provider \<Rightarrow> bool" where
  "kept e p p' =
     (x_field p' = x_field p \<and> y_field p' = y_field p \<and> time_field p' = time_field p
      \<and> coverage_properties p' = coverage_properties p
      \<and> axes p' = axes p \<and> field_list p' = field_list p
      \<and> (handle p = open_data e (data p) \<longrightarrow> handle p' = open_data e (data p')))"

section \<open>An example environment\<close>

text \<open>
  A small dataset family for the concrete runs below: a 2 x 3 x 4 temperature field
  with an ascending longitude, a descending latitude and two yearly time steps counted
  in months since 1970, beside a surface variable of rank two.
\<close>

definition example_dataset :: dataset where
  "example_dataset =
     \<lparr>coords =
        [(''lon'', \<lparr>units = Some ''degrees_east'', coord_values = [0, 1, 2, 3]\<rparr>),
         (''lat'', \<lparr>units = Some ''degrees_north'', coord_values = [50, 49, 48]\<rparr>),
         (''time'', \<lparr>units = None, coord_values = [432, 444]\<rparr>)],
      dims = [(''time'', 2), (''lat'', 3), (''lon'', 4)],
      variables =
        [(''tas'', \<lparr>shape = [2, 3, 4], attrs = [(''units'', ''K'')]\<rparr>),
         (''orog'', \<lparr>shape = [3, 4], attrs = [(''units'', ''m'')]\<rparr>),
         (''lon'', \<lparr>shape = [4], attrs = [(''units'', ''degrees_east'')]\<rparr>),
         (''lat'', \<lparr>shape = [3], attrs = [(''units'', ''degrees_north'')]\<rparr>),
         (''time'', \<lparr>shape = [2], attrs = []\<rparr>)]\<rparr>"

text \<open>The same field on three pressure levels, a fourth axis stored descending.\<close>

definition example_levels :: dataset where
  "example_levels =
     \<lparr>coords =
        [(''lon'', \<lparr>units = Some ''degrees_east'', coord_values = [0, 1, 2, 3]\<rparr>),
         (''lat'', \<lparr>units = Some ''degrees_north'', coord_values = [50, 49, 48]\<rparr>),
         (''plev'', \<lparr>units = Some ''hPa'', coord_values = [1000, 850, 500]\<rparr>),
         (''time'', \<lparr>units = None, coord_values = [432, 444]\<rparr>)],
      dims = [(''time'', 2), (''plev'', 3), (''lat'', 3), (''lon'', 4)],
      variables =
        [(''tas'', \<lparr>shape = [2, 3, 3, 4], attrs = [(''units'', ''K'')]\<rparr>),
         (''lon'', \<lparr>shape = [4], attrs = [(''units'', ''degrees_east'')]\<rparr>),
         (''lat'', \<lparr>shape = [3], attrs = [(''units'', ''degrees_north'')]\<rparr>),
         (''plev'', \<lparr>shape = [3], attrs = [(''units'', ''hPa'')]\<rparr>),
         (''time'', \<lparr>shape = [2], attrs = []\<rparr>)]\<rparr>"

text \<open>The files that exist. There is none for the scenario 4.5.\<close>

definition example_files :: "(string \<times> dataset) list" where
  "example_files =
     [(''/data/RCP2.6/tas_pctl50_DJF.nc'', example_dataset),
      (''/data/RCP8.5/tas_pctl50_DJF.nc'', example_dataset),
      (''/data/RCP2.6/tas_pctl25_DJF.nc'', example_dataset),
      (''/data/RCP8.5/tas_pctl50_MAM.nc'', example_dataset),
      (''/data/monthly_ens/RCP2.6/tas_pctl50_DJF.nc'', example_dataset),
      (''/data/RCP2.6/levels_pctl50_DJF.nc'', example_levels)]"

text \<open>
  A selection for the example: an integer slice keeps the samples between its
  bounds, read in the stored direction of the axis; any other selector raises. The
  shapes of the variables are left as they are, nothing after the selection reads
  them.
\<close>

fun example_sel :: "coord \<Rightarrow> selector \<Rightarrow> coord option" where
  "example_sel c (Slice (PInt a) (PInt b)) =
     (if coord_values c \<noteq> [] \<and> hd (coord_values c) > last (coord_values c)
      then Some (c\<lparr>coord_values := filter (\<lambda>v. b \<le> v \<and> v \<le> a) (coord_values c)\<rparr>)
      else Some (c\<lparr>coord_values := filter (\<lambda>v. a \<le> v \<and> v \<le> b) (coord_values c)\<rparr>))"
| "example_sel c sel = None"

definition example_loc :: "dataset \<Rightarrow> (string \<rightharpoonup> selector) \<Rightarrow> dataset option" where
  "example_loc ds query_params =
     (let cs = map (\<lambda>(name, c).
                 (name, case query_params name of
                          None \<Rightarrow> Some c
                        | Some sel \<Rightarrow> example_sel c sel)) (coords ds)
      in if list_ex (\<lambda>(name, r). r = None) cs then None
         else Some (ds\<lparr>coords := map (\<lambda>(name, r). (name, the r)) cs,
                       dims := map (\<lambda>(name, n).
                                 (name, case map_of cs name of
                                          Some (Some c) \<Rightarrow> length (coord_values c)
                                        | _ \<Rightarrow> n)) (dims ds)\<rparr>))"

definition example_getitem :: "dataset \<Rightarrow> string list \<Rightarrow> dataset option" where
  "example_getitem ds names =
     (if list_all (has_key (variables ds)) names
      then Some (ds\<lparr>variables :=
                     filter (\<lambda>(name, v). name \<in> set names \<or> has_key (coords ds) name)
                       (variables ds)\<rparr>)
      else None)"

definition example_env :: env where
  "example_env =
     \<lparr>open_mfdataset = map_of example_files,
      convert_float32_to_float64 = Some,
      getitem = example_getitem,
      loc = example_loc,
      astype_M = Some,
      astype_Y = (\<lambda>m. Some (m div 12)),
      get_time_coverage_duration = (\<lambda>ds tf. Some ''12 years''),
      get_zarr_data = (\<lambda>h. case h of None \<Rightarrow> None | Some d \<Rightarrow> Some ''zarr store''),
      read_data = (\<lambda>locator. if has_key example_files locator then Some locator else None),
      gen_covjson = (\<lambda>p meta d names. Some ''coverage json''),
      to_netcdf = (\<lambda>d. Some ''netcdf bytes'')\<rparr>"

definition example_def :: provider_def where
  "example_def =
     \<lparr>def_data = ''/data/RCP2.6/tas_pctl50_DJF.nc'',
      def_x_field = None,
      def_y_field = None,
      def_time_field = None\<rparr>"

text \<open>The provider that \<open>init example_env example_def\<close> constructs.\<close>

definition example_provider :: provider where
  "example_provider =
     \<lparr>data = ''/data/RCP2.6/tas_pctl50_DJF.nc'',
      handle = Some example_dataset,
      x_field = ''lon'',
      y_field = ''lat'',
      time_field = ''time'',
      coverage_properties =
        \<lparr>bbox = [0, 50, 3, 48],
         time_range = [Some ''2006'', Some ''2007''],
         bbox_crs = ''http://www.opengis.net/def/crs/OGC/1.3/CRS84'',
         crs_type = ''GeographicCRS'',
         x_axis_label = ''lon'',
         y_axis_label = ''lat'',
         time_axis_label = ''time'',
         width = 4,
         height = 3,
         time = 2,
         time_duration = ''12 years'',
         bbox_units = ''degrees'',
         resx = 1,
         resy = 1,
         restime = Some (1, ''year''),
         inverse_flattening = None,
         prop_axes = [''lon'', ''lat'', ''time''],
         prop_fields = [''tas'']\<rparr>,
      axes = [''lon'', ''lat'', ''time'', ''scenario'', ''percentile''],
      field_list = [''tas''],
      opened = [''/data/RCP2.6/tas_pctl50_DJF.nc'']\<rparr>"

text \<open>The provider after a query that selected the scenario \<^verbatim>\<open>RCP8.5\<close>.\<close>

definition example_swapped :: provider where
  "example_swapped =
     example_provider
       \<lparr>data := ''/data/RCP8.5/tas_pctl50_DJF.nc'',
        opened := [''/data/RCP2.6/tas_pctl50_DJF.nc'', ''/data/RCP8.5/tas_pctl50_DJF.nc'']\<rparr>"

text \<open>
  The providers after a query that selected the percentile 25, and after one that
  selected the season \<^verbatim>\<open>MAM\<close>, for which there is no file.
\<close>

definition example_pctl25 :: provider where
  "example_pctl25 =
     example_provider
       \<lparr>data := ''/data/RCP2.6/tas_pctl25_DJF.nc'',
        opened := [''/data/RCP2.6/tas_pctl50_DJF.nc'', ''/data/RCP2.6/tas_pctl25_DJF.nc'']\<rparr>"

definition example_mam :: provider where
  "example_mam =
     example_provider
       \<lparr>data := ''/data/RCP2.6/tas_pctl50_MAM.nc'',
        handle := None,
        opened := [''/data/RCP2.6/tas_pctl50_DJF.nc'', ''/data/RCP2.6/tas_pctl50_MAM.nc'']\<rparr>"

text \<open>The example dataset narrowed to \<^verbatim>\<open>tas\<close> and cut to no longitude at all.\<close>

definition example_empty :: dataset where
  "example_empty =
     example_dataset
       \<lparr>coords :=
          [(''lon'', \<lparr>units = Some ''degrees_east'', coord_values = []\<rparr>),
           (''lat'', \<lparr>units = Some ''degrees_north'', coord_values = [50, 49, 48]\<rparr>),
           (''time'', \<lparr>units = None, coord_values = [432, 444]\<rparr>)],
        dims := [(''time'', 2), (''lat'', 3), (''lon'', 0)],
        variables :=
          [(''tas'', \<lparr>shape = [2, 3, 4], attrs = [(''units'', ''K'')]\<rparr>),
           (''lon'', \<lparr>shape = [4], attrs = [(''units'', ''degrees_east'')]\<rparr>),
           (''lat'', \<lparr>shape = [3], attrs = [(''units'', ''degrees_north'')]\<rparr>),
           (''time'', \<lparr>shape = [2], attrs = []\<rparr>)]\<rparr>"

text \<open>The provider constructed on the file with the pressure levels.\<close>

definition example_levels_def :: provider_def where
  "example_levels_def = example_def\<lparr>def_data := ''/data/RCP2.6/levels_pctl50_DJF.nc''\<rparr>"

definition example_levels_provider :: provider where
  "example_levels_provider =
     example_provider
       \<lparr>data := ''/data/RCP2.6/levels_pctl50_DJF.nc'',
        handle := Some example_levels,
        opened := [''/data/RCP2.6/levels_pctl50_DJF.nc'']\<rparr>"

section \<open>Evaluation and sequencing lemmas\<close>

text \<open>The defining equations that a concrete run unfolds.\<close>

lemmas model_defs =
  init_def open_data_def get_coverage_properties_def base_properties_def crs_properties_def
  axes_and_fields_def getkey_opt_def getkey_def getattr_def item_def item_last_def
  get_time_resolution_def to_datetime_string_def fields_of_def rank_ge_3_def lower_def
  lower_char_def int64_def str_int_def str_nat.simps digit_char_def zfill_def replace.simps
  has_key_def pop_def reopen_def as_query_error_def scenario_body_def percentile_body_def
  season_body_def facet_def facet_pass_def subset_slice_def bbox_slices_def
  datetime_slices_def build_query_params_def wants_subset_def select_data_def
  check_no_data_def make_out_meta_def returned_def encode_def respond_def native_def
  fast_path_def query_def
  range_subset_of_def subsets_of_def bbox_of_def format_of_def call_query_def Let_def

lemmas example_defs =
  example_env_def example_def_def example_provider_def example_files_def
  example_dataset_def example_levels_def example_loc_def example_getitem_def

lemma and_then_Inr_iff: "(and_then r f = Inr b) = (\<exists>a. r = Inr a \<and> f a = Inr b)"
  by (cases r) (simp_all add: and_then_def)

lemma and_then_Inl_iff:
  "(and_then r f = Inl err) = (r = Inl err \<or> (\<exists>a. r = Inr a \<and> f a = Inl err))"
  by (cases r) (simp_all add: and_then_def)

lemma and_then_simps [simp]:
  "and_then (Inl err) f = Inl err" "and_then (Inr a) f = f a"
  by (simp_all add: and_then_def)

section \<open>Facts about the string operations\<close>

lemma startswith_append: "startswith (t @ s) t"
  by (induction t) simp_all

lemma str_in_empty: "str_in [] s"
  by (cases s) simp_all

lemma str_in_append_left: "str_in t (t @ s)"
  using startswith_append [of t s] by (cases t) (simp_all add: str_in_empty)

lemma replace_contains_new:
  "old \<noteq> [] \<Longrightarrow> str_in old s \<Longrightarrow> str_in new (replace s old new)"
proof (induction s old new rule: replace.induct)
  case (1 s old new)
  from "1.prems" obtain c cs where s: "s = c # cs"
    by (cases s) auto
  show ?case
  proof (cases "startswith s old")
    case True
    with "1.prems" s have "replace s old new = new @ replace (drop (length old) s) old new"
      by (subst replace.simps) simp
    then show ?thesis by (simp add: str_in_append_left)
  next
    case False
    with "1.prems" s have r: "replace s old new = c # replace cs old new"
      by (subst replace.simps) simp
    from False "1.prems" s have "str_in old cs" by simp
    with "1.IH"(2) "1.prems"(1) s False have "str_in new (replace cs old new)" by simp
    with r show ?thesis by simp
  qed
qed

lemma replace_absent: "\<not> str_in old s \<Longrightarrow> replace s old new = s"
proof (induction s)
  case Nil
  then show ?case by (subst replace.simps) simp
next
  case (Cons c cs)
  then have "old \<noteq> []" "\<not> startswith (c # cs) old" "\<not> str_in old cs"
    using str_in_empty by auto
  with Cons.IH show ?case by (subst replace.simps) simp
qed

lemma str_nat_digit: "n < 10 \<Longrightarrow> str_nat n = [digit_char n]"
  by (subst str_nat.simps) simp

lemma str_nat_two: "10 \<le> n \<Longrightarrow> n < 100 \<Longrightarrow> str_nat n = [digit_char (n div 10), digit_char (n mod 10)]"
  by (subst str_nat.simps) (simp add: str_nat_digit)

lemma digit_char_no_sign:
  assumes "n < 10"
  shows "digit_char n \<noteq> CHR ''+'' \<and> digit_char n \<noteq> CHR ''-''"
proof -
  have "digit_char n \<in> set ''0123456789''"
    unfolding digit_char_def using assms by (intro nth_mem) simp
  then show ?thesis by auto
qed

lemma zfill_month:
  assumes "1 \<le> k" "k \<le> 12"
  shows "zfill (str_int k) 2 = [digit_char (nat k div 10), digit_char (nat k mod 10)]"
proof (cases "k < 10")
  case True
  with assms have n: "nat k < 10" "nat k div 10 = 0" "nat k mod 10 = nat k" by auto
  have z: "digit_char 0 = CHR ''0''" by (simp add: digit_char_def)
  from assms True show ?thesis
    using digit_char_no_sign [OF n(1)]
    by (simp add: zfill_def str_int_def str_nat_digit n z)
next
  case False
  with assms have n: "10 \<le> nat k" "nat k < 100" by auto
  from assms False show ?thesis
    by (simp add: zfill_def str_int_def str_nat_two [OF n])
qed

section \<open>The format of the normalized datetime\<close>

lemma int64_id: "- (2 ^ 63) \<le> i \<Longrightarrow> i < 2 ^ 63 \<Longrightarrow> int64 i = i"
  by (simp add: int64_def)

lemma month_in_year: "1 \<le> (m::int) mod 12 + 1 \<and> m mod 12 + 1 \<le> 12"
  by presburger

text \<open>
  C7. Without the marker \<^verbatim>\<open>monthly_ens\<close> in the locator the normalizer returns the year,
  \<^verbatim>\<open>str\<close> of the years since the epoch plus 1970, and nothing else. With the marker it
  returns the year, a hyphen and the month in two digits, the month being the months
  since the epoch modulo 12 plus 1, which lies between 1 and 12. When a cast of the sample
  raises, the function returns \<^verbatim>\<open>None\<close> and raises nothing.
\<close>

theorem to_datetime_string_format:
  "(\<not> str_in ''monthly_ens'' locator \<longrightarrow>
      to_datetime_string e locator t =
        (case astype_Y e t of
           None \<Rightarrow> None
         | Some y \<Rightarrow> Some (str_int (int64 (y + 1970)))))
   \<and> (str_in ''monthly_ens'' locator \<longrightarrow>
      to_datetime_string e locator t =
        (case astype_M e t of
           None \<Rightarrow> None
         | Some m \<Rightarrow>
             (case astype_Y e t of
                None \<Rightarrow> None
              | Some y \<Rightarrow>
                  Some (str_int (int64 (y + 1970)) @ ''-'' @
                        [digit_char (nat (m mod 12 + 1) div 10),
                         digit_char (nat (m mod 12 + 1) mod 10)])))
      \<and> (\<forall>m. astype_M e t = Some m \<longrightarrow> 1 \<le> m mod 12 + 1 \<and> m mod 12 + 1 \<le> 12))"
proof -
  have wrap: "int64 (m mod 12 + 1) = m mod 12 + 1" for m :: int
    using month_in_year [of m] by (intro int64_id) auto
  show ?thesis
    using month_in_year
    by (auto simp: to_datetime_string_def wrap zfill_month Let_def split: option.splits)
qed

theorem to_datetime_string_format_witness:
  "str_in ''monthly_ens'' ''/data/monthly_ens/RCP2.6/tas_pctl50_DJF.nc''
   \<and> to_datetime_string example_env ''/data/monthly_ens/RCP2.6/tas_pctl50_DJF.nc'' 437
       = Some ''2006-06''
   \<and> \<not> str_in ''monthly_ens'' ''/data/RCP2.6/tas_pctl50_DJF.nc''
   \<and> to_datetime_string example_env ''/data/RCP2.6/tas_pctl50_DJF.nc'' 437 = Some ''2006''
   \<and> to_datetime_string (example_env\<lparr>astype_Y := (\<lambda>t. None)\<rparr>)
         ''/data/RCP2.6/tas_pctl50_DJF.nc'' 437 = None"
  using to_datetime_string_format
          [of "''/data/monthly_ens/RCP2.6/tas_pctl50_DJF.nc''" example_env 437]
        to_datetime_string_format
          [of "''/data/RCP2.6/tas_pctl50_DJF.nc''" example_env 437]
        to_datetime_string_format
          [of "''/data/RCP2.6/tas_pctl50_DJF.nc''" "example_env\<lparr>astype_Y := (\<lambda>t. None)\<rparr>" 437]
  by (simp add: example_env_def int64_def str_int_def str_nat.simps digit_char_def)

section \<open>What construction establishes\<close>

lemma base_properties_labels:
  assumes "base_properties e locator ds xf yf tf = Inr properties"
  shows "x_axis_label properties = the xf \<and> y_axis_label properties = the yf
         \<and> time_axis_label properties = the tf"
  using assms unfolding base_properties_def and_then_Inr_iff by (elim exE conjE) auto

lemma crs_properties_labels:
  assumes "crs_properties ds properties = Inr properties'"
  shows "x_axis_label properties' = x_axis_label properties
         \<and> y_axis_label properties' = y_axis_label properties
         \<and> time_axis_label properties' = time_axis_label properties"
  using assms
  by (auto simp: crs_properties_def and_then_Inr_iff split: option.splits)

lemma get_coverage_properties_Inr:
  assumes "get_coverage_properties e locator h xf0 yf0 tf0 = Inr (properties, xf, yf, tf)"
  shows "\<exists>ds. h = Some ds \<and> prop_fields properties = fields_of ds
           \<and> x_axis_label properties = xf \<and> y_axis_label properties = yf
           \<and> time_axis_label properties = tf"
proof (cases h)
  case None
  with assms show ?thesis by (simp add: get_coverage_properties_def)
next
  case (Some ds)
  with assms obtain xf' yf' tf' base withcrs where
    b: "base_properties e locator ds xf' yf' tf' = Inr base"
    and c: "crs_properties ds base = Inr withcrs"
    and r: "properties = axes_and_fields ds withcrs" "xf = the xf'" "yf = the yf'" "tf = the tf'"
    by (auto simp: get_coverage_properties_def and_then_Inr_iff Let_def)
  from base_properties_labels [OF b] crs_properties_labels [OF c] r Some
  show ?thesis by (simp add: axes_and_fields_def)
qed

text \<open>
  C8. After a successful construction the attribute \<^verbatim>\<open>fields\<close> is the list of the
  variable names of the opened dataset whose rank is at least three: a name is in the
  list exactly when it is a variable of the dataset with three or more dimensions, so a
  variable of rank two or less is never in it.
\<close>

theorem fields_rank_at_least_3:
  assumes "init e d = Inr p"
  shows "\<exists>ds. handle p = Some ds \<and> field_list p = fields_of ds
           \<and> (\<forall>name. name \<in> set (field_list p) \<longleftrightarrow>
                 (\<exists>v. map_of (variables ds) name = Some v \<and> 3 \<le> length (shape v)))"
proof -
  from assms obtain properties xf yf tf where
    g: "get_coverage_properties e (def_data d) (open_data e (def_data d))
          (def_x_field d) (def_y_field d) (def_time_field d) = Inr (properties, xf, yf, tf)"
    and p: "handle p = open_data e (def_data d)" "field_list p = prop_fields properties"
    by (auto simp: init_def Let_def split: sum.splits)
  from get_coverage_properties_Inr [OF g] obtain ds where
    ds: "open_data e (def_data d) = Some ds" "prop_fields properties = fields_of ds"
    by blast
  have "name \<in> set (fields_of ds) \<longleftrightarrow>
          (\<exists>v. map_of (variables ds) name = Some v \<and> 3 \<le> length (shape v))" for name
    by (auto simp: fields_of_def rank_ge_3_def split: option.splits dest: map_of_SomeD
             intro: rev_image_eqI)
  with p ds show ?thesis by simp
qed

theorem fields_rank_at_least_3_witness:
  "init example_env example_def = Inr example_provider
   \<and> field_list example_provider = [''tas'']
   \<and> map_option shape (map_of (variables example_dataset) ''orog'') = Some [3, 4]"
proof -
  have i: "init example_env example_def = Inr example_provider"
    by (simp add: model_defs example_defs)
  from fields_rank_at_least_3 [OF i] show ?thesis
    using i by (simp add: example_provider_def example_dataset_def)
qed

text \<open>
  C2, as amended. When the open operation fails on the locator of the provider
  definition, \<^verbatim>\<open>open_data\<close> returns \<^verbatim>\<open>None\<close> and construction fails with a connection
  error.
\<close>

theorem failed_open_is_connection_error:
  assumes "open_mfdataset e (def_data d) = None"
  shows "open_data e (def_data d) = None \<and> init e d = Inl ProviderConnectionError"
  using assms by (simp add: open_data_def init_def get_coverage_properties_def)

theorem failed_open_is_connection_error_witness:
  "open_mfdataset example_env ''/data/RCP4.5/tas_pctl50_DJF.nc'' = None
   \<and> init example_env (example_def\<lparr>def_data := ''/data/RCP4.5/tas_pctl50_DJF.nc''\<rparr>)
       = Inl ProviderConnectionError"
proof -
  have h: "open_mfdataset example_env
             (def_data (example_def\<lparr>def_data := ''/data/RCP4.5/tas_pctl50_DJF.nc''\<rparr>)) = None"
    by (simp add: example_env_def example_files_def)
  from failed_open_is_connection_error [OF h] h show ?thesis by simp
qed

text \<open>
  C2 as stated fails at query time. There is no file for the scenario 4.5: the facet
  pass writes the new locator, \<^verbatim>\<open>open_data\<close> leaves \<^verbatim>\<open>None\<close> in the handle without
  raising, and the query ends in the \<^verbatim>\<open>TypeError\<close> of indexing \<^verbatim>\<open>None\<close>, which is no
  connection error.
\<close>

theorem failed_reopen_counterexample:
  "open_mfdataset example_env ''/data/RCP4.5/tas_pctl50_DJF.nc'' = None
   \<and> query example_env example_provider [''tas''] [(''scenario'', [PStr ''RCP4.5''])]
       [] None ''json''
     = (Inl TypeError,
        example_provider
          \<lparr>data := ''/data/RCP4.5/tas_pctl50_DJF.nc'',
           handle := None,
           opened := [''/data/RCP2.6/tas_pctl50_DJF.nc'', ''/data/RCP4.5/tas_pctl50_DJF.nc'']\<rparr>)"
  by (simp add: model_defs example_defs)

section \<open>Facet selection\<close>

lemma map_of_pop: "map_of (pop d k) k' = (if k' = k then None else map_of d k')"
  by (induction d) (auto simp: pop_def)

lemma pop_commute: "pop (pop d a) b = pop (pop d b) a"
  by (induction d) (auto simp: pop_def)

lemma facet_absent: "map_of subs key = None \<Longrightarrow> facet key body p subs = Inr (p, subs)"
  by (simp add: facet_def)

lemma facet_error: "facet key body p subs = Inl err \<Longrightarrow> err = ProviderQueryError"
  by (auto simp: facet_def as_query_error_def and_then_Inl_iff split: option.splits sum.splits)

lemma query_provider: "snd (query e p range_subset subs box datetime fmt) = fst (facet_pass e p subs)"
  by (simp add: query_def split: prod.splits sum.splits)

lemma query_facet_error:
  "snd (facet_pass e p subs) = Inl err \<Longrightarrow>
   fst (query e p range_subset subs box datetime fmt) = Inl err"
  by (cases "facet_pass e p subs") (simp add: query_def)

lemma facet_pop_other:
  assumes "key \<noteq> other"
  shows "facet key body p (pop subs other) =
           (case facet key body p subs of
              Inl err \<Rightarrow> Inl err
            | Inr (p', subs') \<Rightarrow> Inr (p', pop subs' other))"
  using assms
  by (auto simp: facet_def map_of_pop and_then_def pop_commute split: option.splits sum.splits)

lemma facet_keeps_other:
  assumes "facet key body p subs = Inr (p', subs')" "key \<noteq> other"
  shows "map_of subs' other = map_of subs other"
  using assms
  by (auto simp: facet_def map_of_pop and_then_Inr_iff split: option.splits)

lemma scenario_body_multi: "1 < length vs \<Longrightarrow> scenario_body e p vs = Inl ProviderQueryError"
  by (simp add: scenario_body_def)

lemma season_body_multi: "1 < length vs \<Longrightarrow> season_body e p vs = Inl ProviderQueryError"
  by (simp add: season_body_def)

lemma facet_pass_pop_season:
  "fst (facet_pass e p (pop subs ''season'')) =
     (case facet ''scenario'' (scenario_body e) p subs of
        Inl err \<Rightarrow> p
      | Inr (p1, subs1) \<Rightarrow>
          (case facet ''percentile'' (percentile_body e) p1 subs1 of
             Inl err \<Rightarrow> p1
           | Inr (p2, subs2) \<Rightarrow> p2))"
  by (simp add: facet_pass_def facet_pop_other facet_absent map_of_pop
           split: sum.splits prod.splits)

text \<open>
  C1, as amended. A query with more than one value for the scenario raises a query
  error and leaves the provider as it was. A query with more than one value for the
  season raises a query error, and leaves the provider as the facet pass of the same
  query without the season would: the season step writes nothing, what the scenario and
  percentile steps wrote before it stays.
\<close>

theorem multi_valued_scenario_season_rejected:
  "(\<forall>vs. map_of subs ''scenario'' = Some vs \<and> 1 < length vs \<longrightarrow>
       query e p range_subset subs box datetime fmt = (Inl ProviderQueryError, p))
   \<and> (\<forall>vs. map_of subs ''season'' = Some vs \<and> 1 < length vs \<longrightarrow>
       fst (query e p range_subset subs box datetime fmt) = Inl ProviderQueryError
       \<and> snd (query e p range_subset subs box datetime fmt)
           = fst (facet_pass e p (pop subs ''season'')))"
proof (intro conjI allI impI)
  fix vs
  assume "map_of subs ''scenario'' = Some vs \<and> 1 < length vs"
  then have "facet ''scenario'' (scenario_body e) p subs = Inl ProviderQueryError"
    by (simp add: facet_def scenario_body_multi as_query_error_def)
  then show "query e p range_subset subs box datetime fmt = (Inl ProviderQueryError, p)"
    by (simp add: query_def facet_pass_def)
next
  fix vs
  assume a: "map_of subs ''season'' = Some vs \<and> 1 < length vs"
  have season: "facet ''season'' (season_body e) p' subs' = Inl ProviderQueryError"
    if "map_of subs' ''season'' = Some vs" for p' subs'
    using that a by (simp add: facet_def season_body_multi as_query_error_def)
  have pass: "snd (facet_pass e p subs) = Inl ProviderQueryError
              \<and> fst (facet_pass e p subs) = fst (facet_pass e p (pop subs ''season''))"
  proof (cases "facet ''scenario'' (scenario_body e) p subs")
    case (Inl err)
    then show ?thesis
      using facet_error [OF Inl] unfolding facet_pass_pop_season by (simp add: facet_pass_def)
  next
    case (Inr r1)
    obtain p1 subs1 where r1: "r1 = (p1, subs1)" by (cases r1)
    have k1: "map_of subs1 ''season'' = Some vs"
      using facet_keeps_other [OF Inr [unfolded r1], of "''season''"] a by simp
    show ?thesis
    proof (cases "facet ''percentile'' (percentile_body e) p1 subs1")
      case (Inl err)
      then show ?thesis
        using facet_error [OF Inl] Inr r1 unfolding facet_pass_pop_season
        by (simp add: facet_pass_def)
    next
      case inr2: (Inr r2)
      obtain p2 subs2 where r2: "r2 = (p2, subs2)" by (cases r2)
      have "map_of subs2 ''season'' = Some vs"
        using facet_keeps_other [OF inr2 [unfolded r2], of "''season''"] k1 by simp
      from season [OF this] show ?thesis
        using Inr r1 inr2 r2 unfolding facet_pass_pop_season by (simp add: facet_pass_def)
    qed
  qed
  from pass show "fst (query e p range_subset subs box datetime fmt) = Inl ProviderQueryError"
    by (simp add: query_facet_error)
  from pass show "snd (query e p range_subset subs box datetime fmt)
                    = fst (facet_pass e p (pop subs ''season''))"
    by (simp add: query_provider)
qed

theorem multi_valued_scenario_season_rejected_witness:
  "map_of [(''scenario'', [PStr ''RCP4.5'', PStr ''RCP8.5''])] ''scenario''
     = Some [PStr ''RCP4.5'', PStr ''RCP8.5'']
   \<and> 1 < length [PStr ''RCP4.5'', PStr ''RCP8.5'']
   \<and> query example_env example_provider [''tas'']
        [(''scenario'', [PStr ''RCP4.5'', PStr ''RCP8.5''])] [] None ''json''
      = (Inl ProviderQueryError, example_provider)
   \<and> map_of [(''season'', [PStr ''MAM'', PStr ''JJA''])] ''season''
     = Some [PStr ''MAM'', PStr ''JJA'']
   \<and> 1 < length [PStr ''MAM'', PStr ''JJA'']
   \<and> query example_env example_provider [''tas'']
        [(''season'', [PStr ''MAM'', PStr ''JJA''])] [] None ''json''
      = (Inl ProviderQueryError, example_provider)"
  using multi_valued_scenario_season_rejected
          [of "[(''scenario'', [PStr ''RCP4.5'', PStr ''RCP8.5''])]" example_env
              example_provider "[''tas'']" "[]" None "''json''"]
        multi_valued_scenario_season_rejected
          [of "[(''season'', [PStr ''MAM'', PStr ''JJA''])]" example_env
              example_provider "[''tas'']" "[]" None "''json''"]
  by (simp add: prod_eq_iff pop_def facet_pass_def facet_def)

text \<open>
  C1 as stated fails twice. With one scenario and two seasons the query error comes
  after the scenario step has written the locator and opened the dataset again. With two
  percentiles there is no error: the first is used.
\<close>

theorem multi_valued_facet_counterexample:
  "query example_env example_provider [''tas'']
     [(''scenario'', [PStr ''RCP8.5'']), (''season'', [PStr ''MAM'', PStr ''JJA''])]
     [] None ''json''
   = (Inl ProviderQueryError,
      example_provider
        \<lparr>data := ''/data/RCP8.5/tas_pctl50_DJF.nc'',
         opened := [''/data/RCP2.6/tas_pctl50_DJF.nc'', ''/data/RCP8.5/tas_pctl50_DJF.nc'']\<rparr>)
   \<and> query example_env example_provider []
       [(''percentile'', [PInt 25, PInt 75])] [] None ''netcdf''
     = (Inr (Native_data ''/data/RCP2.6/tas_pctl25_DJF.nc''),
        example_provider
          \<lparr>data := ''/data/RCP2.6/tas_pctl25_DJF.nc'',
           opened := [''/data/RCP2.6/tas_pctl50_DJF.nc'', ''/data/RCP2.6/tas_pctl25_DJF.nc'']\<rparr>)"
  by (simp add: model_defs example_defs)

lemma facet_pass_scenario_only:
  assumes "map_of subs ''scenario'' = Some vs"
    and "map_of subs ''percentile'' = None" "map_of subs ''season'' = None"
  shows "facet_pass e p subs =
           (case scenario_body e p vs of
              Inl err \<Rightarrow> (p, Inl ProviderQueryError)
            | Inr p' \<Rightarrow> (p', Inr (pop subs ''scenario'')))"
  using assms
  by (simp add: facet_pass_def facet_def as_query_error_def map_of_pop split: sum.splits)

lemma facet_pass_percentile_only:
  assumes "map_of subs ''percentile'' = Some vs"
    and "map_of subs ''scenario'' = None" "map_of subs ''season'' = None"
  shows "facet_pass e p subs =
           (case percentile_body e p vs of
              Inl err \<Rightarrow> (p, Inl ProviderQueryError)
            | Inr p' \<Rightarrow> (p', Inr (pop subs ''percentile'')))"
  using assms
  by (simp add: facet_pass_def facet_def as_query_error_def map_of_pop split: sum.splits)

lemma facet_pass_season_only:
  assumes "map_of subs ''season'' = Some vs"
    and "map_of subs ''scenario'' = None" "map_of subs ''percentile'' = None"
  shows "facet_pass e p subs =
           (case season_body e p vs of
              Inl err \<Rightarrow> (p, Inl ProviderQueryError)
            | Inr p' \<Rightarrow> (p', Inr (pop subs ''season'')))"
  using assms
  by (simp add: facet_pass_def facet_def as_query_error_def map_of_pop split: sum.splits)

lemma facet_pass_none:
  assumes "map_of subs ''scenario'' = None" "map_of subs ''percentile'' = None"
    and "map_of subs ''season'' = None"
  shows "facet_pass e p subs = (p, Inr subs)"
  using assms by (simp add: facet_pass_def facet_absent)

text \<open>
  C5. In a query whose only facet is the scenario: selecting \<^verbatim>\<open>RCP8.5\<close> against a locator
  that contains \<^verbatim>\<open>2.6\<close> writes the locator with \<^verbatim>\<open>8.5\<close> in place of \<^verbatim>\<open>2.6\<close>, which
  contains \<^verbatim>\<open>8.5\<close>, and opens it; selecting \<^verbatim>\<open>RCP2.6\<close> or \<^verbatim>\<open>hist\<close> leaves the provider as
  it was, the log of opened locators included. In a query whose only facet is the
  percentile: selecting \<^verbatim>\<open>[50]\<close> leaves the provider as it was; selecting \<^verbatim>\<open>[25]\<close> against
  a locator that contains \<^verbatim>\<open>pctl50\<close> writes the locator with \<^verbatim>\<open>pctl25\<close> in its place and
  opens it.
\<close>

theorem facet_selection_reopens:
  "(map_of subs ''percentile'' = None \<and> map_of subs ''season'' = None \<longrightarrow>
      (str_in ''2.6'' (data p) \<and> map_of subs ''scenario'' = Some [PStr ''RCP8.5''] \<longrightarrow>
         snd (query e p range_subset subs box datetime fmt)
           = p\<lparr>data := replace (data p) ''2.6'' ''8.5'',
                handle := open_data e (replace (data p) ''2.6'' ''8.5''),
                opened := opened p @ [replace (data p) ''2.6'' ''8.5'']\<rparr>
         \<and> str_in ''8.5'' (replace (data p) ''2.6'' ''8.5''))
      \<and> (map_of subs ''scenario'' = Some [PStr ''RCP2.6'']
           \<or> map_of subs ''scenario'' = Some [PStr ''hist''] \<longrightarrow>
         snd (query e p range_subset subs box datetime fmt) = p))
   \<and> (map_of subs ''scenario'' = None \<and> map_of subs ''season'' = None \<longrightarrow>
      (map_of subs ''percentile'' = Some [PInt 50] \<longrightarrow>
         snd (query e p range_subset subs box datetime fmt) = p)
      \<and> (str_in ''pctl50'' (data p) \<and> map_of subs ''percentile'' = Some [PInt 25] \<longrightarrow>
         snd (query e p range_subset subs box datetime fmt)
           = p\<lparr>data := replace (data p) ''pctl50'' ''pctl25'',
                handle := open_data e (replace (data p) ''pctl50'' ''pctl25''),
                opened := opened p @ [replace (data p) ''pctl50'' ''pctl25'']\<rparr>
         \<and> str_in ''pctl25'' (replace (data p) ''pctl50'' ''pctl25'')))"
proof -
  have v: "replace ''RCP8.5'' ''RCP'' [] = ''8.5''"
    by (simp add: replace.simps)
  have s: "str_int 25 = ''25''"
    by (simp add: str_int_def str_nat.simps digit_char_def)
  have sc: "scenario_body e p [PStr ''RCP8.5''] = Inr (reopen e p (replace (data p) ''2.6'' ''8.5''))"
    by (simp add: scenario_body_def item_def v)
  have pc: "percentile_body e p [PInt 25]
              = Inr (reopen e p (replace (data p) ''pctl50'' ''pctl25''))"
    by (simp add: percentile_body_def item_def s)
  have d1: "scenario_body e p [PStr ''RCP2.6''] = Inr p" "scenario_body e p [PStr ''hist''] = Inr p"
    by (simp_all add: scenario_body_def item_def)
  have d2: "percentile_body e p [PInt 50] = Inr p"
    by (simp add: percentile_body_def)
  show ?thesis
    by (auto simp: query_provider facet_pass_scenario_only facet_pass_percentile_only
          sc pc d1 d2 reopen_def replace_contains_new)
qed

theorem facet_selection_reopens_witness:
  "map_of [(''scenario'', [PStr ''RCP8.5''])] ''percentile'' = None
   \<and> map_of [(''scenario'', [PStr ''RCP8.5''])] ''season'' = None
   \<and> str_in ''2.6'' (data example_provider)
   \<and> map_of [(''scenario'', [PStr ''RCP8.5''])] ''scenario'' = Some [PStr ''RCP8.5'']
   \<and> data (snd (query example_env example_provider [''tas'']
              [(''scenario'', [PStr ''RCP8.5''])] [] None ''json''))
       = ''/data/RCP8.5/tas_pctl50_DJF.nc''
   \<and> opened (snd (query example_env example_provider [''tas'']
              [(''scenario'', [PStr ''RCP8.5''])] [] None ''json''))
       = [''/data/RCP2.6/tas_pctl50_DJF.nc'', ''/data/RCP8.5/tas_pctl50_DJF.nc'']
   \<and> map_of [(''scenario'', [PStr ''hist''])] ''scenario'' = Some [PStr ''hist'']
   \<and> snd (query example_env example_provider [''tas'']
          [(''scenario'', [PStr ''hist''])] [] None ''json'') = example_provider
   \<and> map_of [(''percentile'', [PInt 25])] ''scenario'' = None
   \<and> map_of [(''percentile'', [PInt 25])] ''season'' = None
   \<and> str_in ''pctl50'' (data example_provider)
   \<and> map_of [(''percentile'', [PInt 25])] ''percentile'' = Some [PInt 25]
   \<and> data (snd (query example_env example_provider [''tas'']
              [(''percentile'', [PInt 25])] [] None ''json''))
       = ''/data/RCP2.6/tas_pctl25_DJF.nc''
   \<and> opened (snd (query example_env example_provider [''tas'']
              [(''percentile'', [PInt 25])] [] None ''json''))
       = [''/data/RCP2.6/tas_pctl50_DJF.nc'', ''/data/RCP2.6/tas_pctl25_DJF.nc'']
   \<and> map_of [(''percentile'', [PInt 50])] ''percentile'' = Some [PInt 50]
   \<and> snd (query example_env example_provider [''tas'']
          [(''percentile'', [PInt 50])] [] None ''json'') = example_provider"
proof -
  have h: "str_in ''2.6'' (data example_provider)" "str_in ''pctl50'' (data example_provider)"
    by (simp_all add: example_provider_def)
  from facet_selection_reopens
         [of "[(''scenario'', [PStr ''RCP8.5''])]" example_provider example_env
             "[''tas'']" "[]" None "''json''"]
       facet_selection_reopens
         [of "[(''scenario'', [PStr ''hist''])]" example_provider example_env
             "[''tas'']" "[]" None "''json''"]
       facet_selection_reopens
         [of "[(''percentile'', [PInt 25])]" example_provider example_env
             "[''tas'']" "[]" None "''json''"]
       facet_selection_reopens
         [of "[(''percentile'', [PInt 50])]" example_provider example_env
             "[''tas'']" "[]" None "''json''"] h
  show ?thesis
    by (simp add: example_provider_def replace.simps)
qed

section \<open>Invariants of the reachable providers\<close>

lemma scenario_body_frame:
  "scenario_body e p vs = Inr p' \<Longrightarrow> p' = p \<or> (\<exists>l. p' = reopen e p l)"
  by (auto simp: scenario_body_def and_then_Inr_iff split: if_splits)

lemma percentile_body_frame:
  "percentile_body e p vs = Inr p' \<Longrightarrow> p' = p \<or> (\<exists>l. p' = reopen e p l)"
  by (auto simp: percentile_body_def and_then_Inr_iff split: if_splits)

lemma season_body_frame:
  "season_body e p vs = Inr p' \<Longrightarrow> p' = p \<or> (\<exists>l. p' = reopen e p l)"
  by (auto simp: season_body_def and_then_Inr_iff split: if_splits)

lemma kept_refl: "kept e p p"
  by (simp add: kept_def)

lemma kept_reopen: "kept e p (reopen e p l)"
  by (simp add: kept_def reopen_def)

lemma kept_trans: "kept e p p1 \<Longrightarrow> kept e p1 p2 \<Longrightarrow> kept e p p2"
  by (simp add: kept_def)

lemma facet_kept:
  assumes "facet key body p subs = Inr (p', subs')"
    and "\<And>vs q. body p vs = Inr q \<Longrightarrow> q = p \<or> (\<exists>l. q = reopen e p l)"
  shows "kept e p p'"
proof (cases "map_of subs key")
  case None
  with assms(1) show ?thesis by (simp add: facet_def kept_refl)
next
  case (Some vs)
  with assms(1) have "body p vs = Inr p'"
    by (auto simp: facet_def and_then_Inr_iff as_query_error_def split: sum.splits)
  from assms(2) [OF this] show ?thesis
    by (auto simp: kept_refl kept_reopen)
qed

lemma facet_pass_kept: "kept e p (fst (facet_pass e p subs))"
proof (cases "facet ''scenario'' (scenario_body e) p subs")
  case (Inl err)
  then show ?thesis by (simp add: facet_pass_def kept_refl)
next
  case (Inr r1)
  obtain p1 subs1 where r1: "r1 = (p1, subs1)" by (cases r1)
  have k1: "kept e p p1"
    using facet_kept [OF Inr [unfolded r1]] scenario_body_frame by blast
  show ?thesis
  proof (cases "facet ''percentile'' (percentile_body e) p1 subs1")
    case (Inl err)
    with Inr r1 k1 show ?thesis by (simp add: facet_pass_def)
  next
    case inr2: (Inr r2)
    obtain p2 subs2 where r2: "r2 = (p2, subs2)" by (cases r2)
    have k2: "kept e p p2"
      using facet_kept [OF inr2 [unfolded r2]] percentile_body_frame k1 kept_trans by blast
    show ?thesis
    proof (cases "facet ''season'' (season_body e) p2 subs2")
      case (Inl err)
      with Inr r1 inr2 r2 k2 show ?thesis by (simp add: facet_pass_def)
    next
      case inr3: (Inr r3)
      obtain p3 subs3 where r3: "r3 = (p3, subs3)" by (cases r3)
      have "kept e p p3"
        using facet_kept [OF inr3 [unfolded r3]] season_body_frame k2 kept_trans by blast
      with Inr r1 inr2 r2 inr3 r3 show ?thesis by (simp add: facet_pass_def)
    qed
  qed
qed

lemma init_Inr:
  assumes "init e d = Inr p"
  shows "data p = def_data d \<and> handle p = open_data e (def_data d)
         \<and> x_axis_label (coverage_properties p) = x_field p
         \<and> y_axis_label (coverage_properties p) = y_field p
         \<and> time_axis_label (coverage_properties p) = time_field p"
proof -
  from assms obtain properties xf yf tf where
    g: "get_coverage_properties e (def_data d) (open_data e (def_data d))
          (def_x_field d) (def_y_field d) (def_time_field d) = Inr (properties, xf, yf, tf)"
    and p: "data p = def_data d" "handle p = open_data e (def_data d)"
      "coverage_properties p = properties" "x_field p = xf" "y_field p = yf" "time_field p = tf"
    by (auto simp: init_def Let_def split: sum.splits)
  from get_coverage_properties_Inr [OF g] p show ?thesis by auto
qed

lemma reachable_invariant:
  assumes "reachable e p"
  shows "handle p = open_data e (data p)
         \<and> x_axis_label (coverage_properties p) = x_field p
         \<and> y_axis_label (coverage_properties p) = y_field p
         \<and> time_axis_label (coverage_properties p) = time_field p"
  using assms
proof (induction rule: reachable.induct)
  case (constructed d p)
  then show ?case using init_Inr by simp
next
  case (queried p range_subset subs box datetime fmt)
  from facet_pass_kept [of e p subs] queried.IH show ?case
    by (auto simp: query_provider kept_def)
qed

text \<open>The example providers are reachable.\<close>

lemma example_reachable: "reachable example_env example_provider"
proof -
  have "init example_env example_def = Inr example_provider"
    by (simp add: model_defs example_defs)
  then show ?thesis by (rule reachable.constructed)
qed

lemma example_swapped_reachable: "reachable example_env example_swapped"
proof -
  have "snd (query example_env example_provider [''tas'']
               [(''scenario'', [PStr ''RCP8.5''])] [] None ''json'') = example_swapped"
    by (simp add: query_provider example_swapped_def model_defs example_defs)
  with reachable.queried [OF example_reachable,
         of "[''tas'']" "[(''scenario'', [PStr ''RCP8.5''])]" "[]" None "''json''"]
  show ?thesis by simp
qed

lemma example_pctl25_reachable: "reachable example_env example_pctl25"
proof -
  have "snd (query example_env example_provider [''tas'']
               [(''percentile'', [PInt 25])] [] None ''json'') = example_pctl25"
    by (simp add: query_provider example_pctl25_def model_defs example_defs)
  with reachable.queried [OF example_reachable,
         of "[''tas'']" "[(''percentile'', [PInt 25])]" "[]" None "''json''"]
  show ?thesis by simp
qed

lemma example_mam_reachable: "reachable example_env example_mam"
proof -
  have "snd (query example_env example_provider [''tas'']
               [(''season'', [PStr ''MAM''])] [] None ''json'') = example_mam"
    by (simp add: query_provider example_mam_def model_defs example_defs)
  with reachable.queried [OF example_reachable,
         of "[''tas'']" "[(''season'', [PStr ''MAM''])]" "[]" None "''json''"]
  show ?thesis by simp
qed

lemma wants_subset_log:
  "wants_subset (p\<lparr>opened := log\<rparr>) subs box datetime = wants_subset p subs box datetime"
  by (simp add: wants_subset_def)

lemma bbox_slices_log:
  "bbox_slices (p\<lparr>opened := log\<rparr>) subs box qp = bbox_slices p subs box qp"
  by (simp add: bbox_slices_def cong: if_cong)

lemma datetime_slices_log:
  "datetime_slices (p\<lparr>opened := log\<rparr>) subs datetime qp = datetime_slices p subs datetime qp"
  by (simp add: datetime_slices_def cong: if_cong option.case_cong list.case_cong)

lemma build_query_params_log:
  "build_query_params (p\<lparr>opened := log\<rparr>) d subs box datetime
     = build_query_params p d subs box datetime"
  by (simp add: build_query_params_def bbox_slices_log datetime_slices_log)

lemma select_data_log:
  "select_data e (p\<lparr>opened := log\<rparr>) range_subset subs box datetime
     = select_data e p range_subset subs box datetime"
  by (simp add: select_data_def wants_subset_log build_query_params_log
        cong: option.case_cong if_cong)

lemma check_no_data_log: "check_no_data (p\<lparr>opened := log\<rparr>) d = check_no_data p d"
  by (simp add: check_no_data_def)

lemma make_out_meta_log: "make_out_meta e (p\<lparr>opened := log\<rparr>) d = make_out_meta e p d"
  by (simp add: make_out_meta_def)

lemma encode_log:
  "encode e (p\<lparr>opened := log\<rparr>) fmt meta d range_subset = encode e p fmt meta d range_subset"
  by (simp add: encode_def cong: if_cong)

lemma respond_log:
  "respond e (p\<lparr>opened := log\<rparr>) d fmt range_subset = respond e p d fmt range_subset"
  by (simp add: respond_def encode_log check_no_data_log make_out_meta_log)

lemma native_log: "native e (p\<lparr>opened := log\<rparr>) fmt = native e p fmt"
  by (simp add: native_def)

lemma query_log_irrelevant:
  assumes "map_of subs ''scenario'' = None" "map_of subs ''percentile'' = None"
    and "map_of subs ''season'' = None"
  shows "fst (query e (p\<lparr>opened := log\<rparr>) range_subset subs box datetime fmt)
           = fst (query e p range_subset subs box datetime fmt)"
  using assms
  by (simp add: query_def facet_pass_none select_data_log respond_log native_log)

lemma query_after_noop_facet:
  assumes "facet_pass e p subs = (p\<lparr>opened := opened p @ [data p]\<rparr>, Inr (pop subs key))"
    and "key = ''scenario'' \<or> key = ''percentile'' \<or> key = ''season''"
    and "\<forall>k. k \<noteq> key \<longrightarrow> k = ''scenario'' \<or> k = ''percentile'' \<or> k = ''season'' \<longrightarrow>
           map_of subs k = None"
  shows "query e p range_subset subs box datetime fmt
           = (fst (query e p range_subset (pop subs key) box datetime fmt),
              p\<lparr>opened := opened p @ [data p]\<rparr>)"
proof -
  have none: "map_of (pop subs key) ''scenario'' = None"
    "map_of (pop subs key) ''percentile'' = None" "map_of (pop subs key) ''season'' = None"
    using assms(2,3) by (auto simp: map_of_pop)
  have "fst (query e p range_subset subs box datetime fmt)
          = fst (query e (p\<lparr>opened := opened p @ [data p]\<rparr>) range_subset (pop subs key)
                  box datetime fmt)"
    using assms(1) none by (simp add: query_def facet_pass_none)
  also have "\<dots> = fst (query e p range_subset (pop subs key) box datetime fmt)"
    by (rule query_log_irrelevant [OF none])
  finally show ?thesis
    using assms(1) by (simp add: prod_eq_iff query_provider)
qed

text \<open>
  C9, as amended. Take a reachable provider whose locator no longer contains the default
  token of a facet (\<^verbatim>\<open>2.6\<close>, \<^verbatim>\<open>pctl50\<close>, \<^verbatim>\<open>DJF\<close>), as after an earlier query that swapped
  the facet, and a query whose only facet is that one, with one value that is not the
  default. The facet pass raises nothing. The substitution changes nothing, so the
  locator stays; the unchanged locator is opened again, which in an unchanged
  environment gives the handle that was there, and the log of opened locators grows by
  it. What the query then returns or raises is what the same query without the facet
  returns or raises on the provider as it was.
\<close>

theorem absent_default_token_is_noop:
  assumes "reachable e p"
  shows
    "(\<not> str_in ''2.6'' (data p) \<and> map_of subs ''scenario'' = Some [PStr s]
        \<and> s \<noteq> ''RCP2.6'' \<and> s \<noteq> ''hist''
        \<and> map_of subs ''percentile'' = None \<and> map_of subs ''season'' = None \<longrightarrow>
      snd (facet_pass e p subs) = Inr (pop subs ''scenario'')
      \<and> query e p range_subset subs box datetime fmt
          = (fst (query e p range_subset (pop subs ''scenario'') box datetime fmt),
             p\<lparr>opened := opened p @ [data p]\<rparr>))
     \<and> (\<not> str_in ''pctl50'' (data p) \<and> map_of subs ''percentile'' = Some [v]
        \<and> v \<noteq> PInt 50
        \<and> map_of subs ''scenario'' = None \<and> map_of subs ''season'' = None \<longrightarrow>
      snd (facet_pass e p subs) = Inr (pop subs ''percentile'')
      \<and> query e p range_subset subs box datetime fmt
          = (fst (query e p range_subset (pop subs ''percentile'') box datetime fmt),
             p\<lparr>opened := opened p @ [data p]\<rparr>))
     \<and> (\<not> str_in ''DJF'' (data p) \<and> map_of subs ''season'' = Some [v]
        \<and> v \<noteq> PStr ''DJF''
        \<and> map_of subs ''scenario'' = None \<and> map_of subs ''percentile'' = None \<longrightarrow>
      snd (facet_pass e p subs) = Inr (pop subs ''season'')
      \<and> query e p range_subset subs box datetime fmt
          = (fst (query e p range_subset (pop subs ''season'') box datetime fmt),
             p\<lparr>opened := opened p @ [data p]\<rparr>))"
proof -
  from reachable_invariant [OF assms] have h: "handle p = open_data e (data p)"
    by simp
  have same: "reopen e p (data p) = p\<lparr>opened := opened p @ [data p]\<rparr>"
    using h by (simp add: reopen_def)
  have sc: "facet_pass e p subs = (p\<lparr>opened := opened p @ [data p]\<rparr>, Inr (pop subs ''scenario''))"
    if "\<not> str_in ''2.6'' (data p)" "map_of subs ''scenario'' = Some [PStr s]"
      "s \<noteq> ''RCP2.6''" "s \<noteq> ''hist''"
      "map_of subs ''percentile'' = None" "map_of subs ''season'' = None"
    using that same
    by (simp add: facet_pass_scenario_only scenario_body_def item_def replace_absent)
  have pc: "facet_pass e p subs = (p\<lparr>opened := opened p @ [data p]\<rparr>, Inr (pop subs ''percentile''))"
    if "\<not> str_in ''pctl50'' (data p)" "map_of subs ''percentile'' = Some [v]" "v \<noteq> PInt 50"
      "map_of subs ''scenario'' = None" "map_of subs ''season'' = None"
    using that same
    by (simp add: facet_pass_percentile_only percentile_body_def item_def replace_absent)
  have se: "facet_pass e p subs = (p\<lparr>opened := opened p @ [data p]\<rparr>, Inr (pop subs ''season''))"
    if "\<not> str_in ''DJF'' (data p)" "map_of subs ''season'' = Some [v]" "v \<noteq> PStr ''DJF''"
      "map_of subs ''scenario'' = None" "map_of subs ''percentile'' = None"
    using that same
    by (simp add: facet_pass_season_only season_body_def item_def replace_absent)
  show ?thesis
  proof (intro conjI impI)
    assume a: "\<not> str_in ''2.6'' (data p) \<and> map_of subs ''scenario'' = Some [PStr s]
        \<and> s \<noteq> ''RCP2.6'' \<and> s \<noteq> ''hist''
        \<and> map_of subs ''percentile'' = None \<and> map_of subs ''season'' = None"
    then have f: "facet_pass e p subs
                    = (p\<lparr>opened := opened p @ [data p]\<rparr>, Inr (pop subs ''scenario''))"
      using sc by blast
    then show "snd (facet_pass e p subs) = Inr (pop subs ''scenario'')" by simp
    from a show "query e p range_subset subs box datetime fmt
          = (fst (query e p range_subset (pop subs ''scenario'') box datetime fmt),
             p\<lparr>opened := opened p @ [data p]\<rparr>)"
      by (intro query_after_noop_facet [OF f]) auto
  next
    assume a: "\<not> str_in ''pctl50'' (data p) \<and> map_of subs ''percentile'' = Some [v]
        \<and> v \<noteq> PInt 50
        \<and> map_of subs ''scenario'' = None \<and> map_of subs ''season'' = None"
    then have f: "facet_pass e p subs
                    = (p\<lparr>opened := opened p @ [data p]\<rparr>, Inr (pop subs ''percentile''))"
      using pc by blast
    then show "snd (facet_pass e p subs) = Inr (pop subs ''percentile'')" by simp
    from a show "query e p range_subset subs box datetime fmt
          = (fst (query e p range_subset (pop subs ''percentile'') box datetime fmt),
             p\<lparr>opened := opened p @ [data p]\<rparr>)"
      by (intro query_after_noop_facet [OF f]) auto
  next
    assume a: "\<not> str_in ''DJF'' (data p) \<and> map_of subs ''season'' = Some [v]
        \<and> v \<noteq> PStr ''DJF''
        \<and> map_of subs ''scenario'' = None \<and> map_of subs ''percentile'' = None"
    then have f: "facet_pass e p subs
                    = (p\<lparr>opened := opened p @ [data p]\<rparr>, Inr (pop subs ''season''))"
      using se by blast
    then show "snd (facet_pass e p subs) = Inr (pop subs ''season'')" by simp
    from a show "query e p range_subset subs box datetime fmt
          = (fst (query e p range_subset (pop subs ''season'') box datetime fmt),
             p\<lparr>opened := opened p @ [data p]\<rparr>)"
      by (intro query_after_noop_facet [OF f]) auto
  qed
qed


theorem absent_default_token_is_noop_witness:
  "reachable example_env example_swapped
   \<and> \<not> str_in ''2.6'' (data example_swapped)
   \<and> map_of [(''scenario'', [PStr ''RCP4.5''])] ''scenario'' = Some [PStr ''RCP4.5'']
   \<and> ''RCP4.5'' \<noteq> ''RCP2.6'' \<and> ''RCP4.5'' \<noteq> ''hist''
   \<and> map_of [(''scenario'', [PStr ''RCP4.5''])] ''percentile'' = None
   \<and> map_of [(''scenario'', [PStr ''RCP4.5''])] ''season'' = None
   \<and> query example_env example_swapped [''tas''] [(''scenario'', [PStr ''RCP4.5''])]
        [] None ''json''
      = (fst (query example_env example_swapped [''tas''] [] [] None ''json''),
         example_swapped
           \<lparr>opened := [''/data/RCP2.6/tas_pctl50_DJF.nc'', ''/data/RCP8.5/tas_pctl50_DJF.nc'',
                       ''/data/RCP8.5/tas_pctl50_DJF.nc'']\<rparr>)
   \<and> fst (query example_env example_swapped [''tas''] [] [] None ''json'')
      = Inr (Covjson ''coverage json'')
   \<and> reachable example_env example_pctl25
   \<and> \<not> str_in ''pctl50'' (data example_pctl25)
   \<and> map_of [(''percentile'', [PInt 75])] ''percentile'' = Some [PInt 75]
   \<and> PInt 75 \<noteq> PInt 50
   \<and> map_of [(''percentile'', [PInt 75])] ''scenario'' = None
   \<and> map_of [(''percentile'', [PInt 75])] ''season'' = None
   \<and> query example_env example_pctl25 [''tas''] [(''percentile'', [PInt 75])]
        [] None ''json''
      = (fst (query example_env example_pctl25 [''tas''] [] [] None ''json''),
         example_pctl25
           \<lparr>opened := [''/data/RCP2.6/tas_pctl50_DJF.nc'', ''/data/RCP2.6/tas_pctl25_DJF.nc'',
                       ''/data/RCP2.6/tas_pctl25_DJF.nc'']\<rparr>)
   \<and> reachable example_env example_mam
   \<and> \<not> str_in ''DJF'' (data example_mam)
   \<and> map_of [(''season'', [PStr ''JJA''])] ''season'' = Some [PStr ''JJA'']
   \<and> PStr ''JJA'' \<noteq> PStr ''DJF''
   \<and> map_of [(''season'', [PStr ''JJA''])] ''scenario'' = None
   \<and> map_of [(''season'', [PStr ''JJA''])] ''percentile'' = None
   \<and> query example_env example_mam [''tas''] [(''season'', [PStr ''JJA''])]
        [] None ''json''
      = (fst (query example_env example_mam [''tas''] [] [] None ''json''),
         example_mam
           \<lparr>opened := [''/data/RCP2.6/tas_pctl50_DJF.nc'', ''/data/RCP2.6/tas_pctl50_MAM.nc'',
                       ''/data/RCP2.6/tas_pctl50_MAM.nc'']\<rparr>)
   \<and> fst (query example_env example_mam [''tas''] [] [] None ''json'') = Inl TypeError"
proof -
  have a: "\<not> str_in ''2.6'' (data example_swapped)"
    "\<not> str_in ''pctl50'' (data example_pctl25)" "\<not> str_in ''DJF'' (data example_mam)"
    by (simp_all add: example_swapped_def example_pctl25_def example_mam_def
          example_provider_def)
  have b: "fst (query example_env example_swapped [''tas''] [] [] None ''json'')
             = Inr (Covjson ''coverage json'')"
    "fst (query example_env example_mam [''tas''] [] [] None ''json'') = Inl TypeError"
    by (simp_all add: example_swapped_def example_mam_def model_defs example_defs)
  from absent_default_token_is_noop
         [OF example_swapped_reachable,
            where subs = "[(''scenario'', [PStr ''RCP4.5''])]" and s = "''RCP4.5''"
            and range_subset = "[''tas'']" and box = "[]" and datetime = None
            and fmt = "''json''"]
       absent_default_token_is_noop
         [OF example_pctl25_reachable,
            where subs = "[(''percentile'', [PInt 75])]" and v = "PInt 75"
            and range_subset = "[''tas'']" and box = "[]" and datetime = None
            and fmt = "''json''"]
       absent_default_token_is_noop
         [OF example_mam_reachable,
            where subs = "[(''season'', [PStr ''JJA''])]" and v = "PStr ''JJA''"
            and range_subset = "[''tas'']" and box = "[]" and datetime = None
            and fmt = "''json''"]
       example_swapped_reachable example_pctl25_reachable example_mam_reachable a b
  show ?thesis
    by (simp add: pop_def example_swapped_def example_pctl25_def example_mam_def
          example_provider_def)
qed

text \<open>
  C9 as stated fails. The facet pass does open the dataset again: after the scenario was
  swapped to 8.5, a query for \<^verbatim>\<open>RCP4.5\<close> opens the 8.5 locator once more. And the query
  may raise: after the season was swapped to \<^verbatim>\<open>MAM\<close>, for which there is no file, the
  handle is \<^verbatim>\<open>None\<close>, a query for \<^verbatim>\<open>JJA\<close> opens the same locator again in vain and ends in
  the \<^verbatim>\<open>TypeError\<close> of indexing \<^verbatim>\<open>None\<close>.
\<close>

theorem absent_default_token_counterexample:
  "reachable example_env example_swapped
   \<and> \<not> str_in ''2.6'' (data example_swapped)
   \<and> opened example_swapped
       = [''/data/RCP2.6/tas_pctl50_DJF.nc'', ''/data/RCP8.5/tas_pctl50_DJF.nc'']
   \<and> opened (snd (query example_env example_swapped [''tas'']
                [(''scenario'', [PStr ''RCP4.5''])] [] None ''json''))
       = [''/data/RCP2.6/tas_pctl50_DJF.nc'', ''/data/RCP8.5/tas_pctl50_DJF.nc'',
          ''/data/RCP8.5/tas_pctl50_DJF.nc'']
   \<and> reachable example_env example_mam
   \<and> \<not> str_in ''DJF'' (data example_mam)
   \<and> query example_env example_mam [''tas''] [(''season'', [PStr ''JJA''])] [] None ''json''
       = (Inl TypeError,
          example_mam
            \<lparr>opened := [''/data/RCP2.6/tas_pctl50_DJF.nc'', ''/data/RCP2.6/tas_pctl50_MAM.nc'',
                        ''/data/RCP2.6/tas_pctl50_MAM.nc'']\<rparr>)"
proof -
  have "opened (snd (query example_env example_swapped [''tas'']
                [(''scenario'', [PStr ''RCP4.5''])] [] None ''json''))
       = [''/data/RCP2.6/tas_pctl50_DJF.nc'', ''/data/RCP8.5/tas_pctl50_DJF.nc'',
          ''/data/RCP8.5/tas_pctl50_DJF.nc'']"
    by (simp add: query_provider example_swapped_def model_defs example_defs)
  moreover have "query example_env example_mam [''tas''] [(''season'', [PStr ''JJA''])]
        [] None ''json''
       = (Inl TypeError,
          example_mam
            \<lparr>opened := [''/data/RCP2.6/tas_pctl50_DJF.nc'', ''/data/RCP2.6/tas_pctl50_MAM.nc'',
                        ''/data/RCP2.6/tas_pctl50_MAM.nc'']\<rparr>)"
    by (simp add: example_mam_def model_defs example_defs)
  ultimately show ?thesis
    using example_swapped_reachable example_mam_reachable
    by (simp add: example_swapped_def example_mam_def example_provider_def)
qed

section \<open>The fast path and the emptiness check\<close>

lemma encode_not_native:
  "encode e p fmt meta d range_subset \<noteq> Inr (Native_zarr z)"
  "encode e p fmt meta d range_subset \<noteq> Inr (Native_data b)"
  by (auto simp: encode_def and_then_Inr_iff)

lemma respond_not_native:
  "respond e p d fmt range_subset \<noteq> Inr (Native_zarr z)"
  "respond e p d fmt range_subset \<noteq> Inr (Native_data b)"
  by (auto simp: respond_def and_then_Inr_iff encode_not_native)

lemma query_native_fast_path:
  assumes "fst (query e p range_subset subs box datetime fmt) = Inr (Native_zarr z)
           \<or> fst (query e p range_subset subs box datetime fmt) = Inr (Native_data b)"
  shows "range_subset = []"
proof (cases "facet_pass e p subs")
  case (Pair p' r)
  show ?thesis
  proof (cases r)
    case (Inl err)
    with Pair assms show ?thesis by (simp add: query_def)
  next
    case (Inr subs')
    show ?thesis
    proof (cases "fast_path range_subset subs' fmt")
      case True
      then show ?thesis by (simp add: fast_path_def)
    next
      case False
      with Pair Inr assms show ?thesis
        by (auto simp: query_def and_then_Inr_iff respond_not_native)
    qed
  qed
qed

text \<open>
  C10. A call that leaves \<^verbatim>\<open>range_subset\<close> out runs with the one name \<^verbatim>\<open>tas\<close>, and the
  condition of the fast path is false for it whatever the subsets and the format. A
  call that returns one of the two native values of the fast path was given the empty
  list explicitly. And a call given the empty list, whose subsets are empty after the
  facet pass and whose format is not \<^verbatim>\<open>json\<close>, ends in the fast path: what it returns or
  raises is what \<^verbatim>\<open>_get_zarr_data\<close> on the handle, for the format \<^verbatim>\<open>zarr\<close>, or
  \<^verbatim>\<open>read_data\<close> on the locator, for any other format, returns or raises.
\<close>

theorem omitted_range_subset_never_fast_path:
  "(arg_range_subset a = None \<longrightarrow>
      range_subset_of a = [''tas'']
      \<and> (\<forall>subs' fmt. \<not> fast_path (range_subset_of a) subs' fmt))
   \<and> (fst (call_query e p a) = Inr (Native_zarr z)
        \<or> fst (call_query e p a) = Inr (Native_data b) \<longrightarrow>
      arg_range_subset a = Some [])
   \<and> (arg_range_subset a = Some [] \<and> snd (facet_pass e p (subsets_of a)) = Inr []
        \<and> format_of a \<noteq> ''json'' \<longrightarrow>
      fst (call_query e p a)
        = (if format_of a = ''zarr''
           then (case get_zarr_data e (handle (fst (facet_pass e p (subsets_of a)))) of
                   None \<Rightarrow> Inl LibraryError
                 | Some stored \<Rightarrow> Inr (Native_zarr stored))
           else (case read_data e (data (fst (facet_pass e p (subsets_of a)))) of
                   None \<Rightarrow> Inl LibraryError
                 | Some bytes \<Rightarrow> Inr (Native_data bytes))))"
proof -
  have omitted: "range_subset_of a = [''tas'']
                 \<and> (\<forall>subs' fmt. \<not> fast_path (range_subset_of a) subs' fmt)"
    if "arg_range_subset a = None"
    using that by (simp add: range_subset_of_def fast_path_def)
  have explicit: "arg_range_subset a = Some []"
    if "fst (call_query e p a) = Inr (Native_zarr z)
        \<or> fst (call_query e p a) = Inr (Native_data b)"
  proof -
    from that have "range_subset_of a = []"
      unfolding call_query_def by (rule query_native_fast_path)
    then show ?thesis
      by (simp add: range_subset_of_def split: option.splits)
  qed
  have taken: "fst (call_query e p a)
        = (if format_of a = ''zarr''
           then (case get_zarr_data e (handle (fst (facet_pass e p (subsets_of a)))) of
                   None \<Rightarrow> Inl LibraryError
                 | Some stored \<Rightarrow> Inr (Native_zarr stored))
           else (case read_data e (data (fst (facet_pass e p (subsets_of a)))) of
                   None \<Rightarrow> Inl LibraryError
                 | Some bytes \<Rightarrow> Inr (Native_data bytes)))"
    if "arg_range_subset a = Some [] \<and> snd (facet_pass e p (subsets_of a)) = Inr []
        \<and> format_of a \<noteq> ''json''"
    using that
    by (cases "facet_pass e p (subsets_of a)")
       (simp add: call_query_def query_def range_subset_of_def fast_path_def native_def
          returned_def split: option.splits)
  from omitted explicit taken show ?thesis
    by blast
qed

theorem omitted_range_subset_never_fast_path_witness:
  "arg_range_subset \<lparr>arg_range_subset = None, arg_subsets = None, arg_bbox = None,
       arg_datetime = None, arg_format = Some ''netcdf''\<rparr> = None
   \<and> range_subset_of \<lparr>arg_range_subset = None, arg_subsets = None, arg_bbox = None,
       arg_datetime = None, arg_format = Some ''netcdf''\<rparr> = [''tas'']
   \<and> fst (call_query example_env example_provider
        \<lparr>arg_range_subset = None, arg_subsets = None, arg_bbox = None,
         arg_datetime = None, arg_format = Some ''netcdf''\<rparr>)
      = Inr (Netcdf ''netcdf bytes'')
   \<and> fst (call_query example_env example_provider
        \<lparr>arg_range_subset = Some [], arg_subsets = None, arg_bbox = None,
         arg_datetime = None, arg_format = Some ''netcdf''\<rparr>)
      = Inr (Native_data ''/data/RCP2.6/tas_pctl50_DJF.nc'')
   \<and> arg_range_subset \<lparr>arg_range_subset = Some [], arg_subsets = None, arg_bbox = None,
       arg_datetime = None, arg_format = Some ''netcdf''\<rparr> = Some []
   \<and> snd (facet_pass example_env example_provider
        (subsets_of \<lparr>arg_range_subset = Some [], arg_subsets = None, arg_bbox = None,
           arg_datetime = None, arg_format = Some ''netcdf''\<rparr>)) = Inr []
   \<and> format_of \<lparr>arg_range_subset = Some [], arg_subsets = None, arg_bbox = None,
       arg_datetime = None, arg_format = Some ''netcdf''\<rparr> \<noteq> ''json''
   \<and> snd (facet_pass example_env example_mam
        (subsets_of \<lparr>arg_range_subset = Some [], arg_subsets = None, arg_bbox = None,
           arg_datetime = None, arg_format = Some ''zarr''\<rparr>)) = Inr []
   \<and> fst (call_query example_env example_mam
        \<lparr>arg_range_subset = Some [], arg_subsets = None, arg_bbox = None,
         arg_datetime = None, arg_format = Some ''zarr''\<rparr>)
      = Inl LibraryError"
proof -
  have n: "fst (call_query example_env example_provider
        \<lparr>arg_range_subset = None, arg_subsets = None, arg_bbox = None,
         arg_datetime = None, arg_format = Some ''netcdf''\<rparr>)
      = Inr (Netcdf ''netcdf bytes'')"
    by (simp add: model_defs example_defs)
  from omitted_range_subset_never_fast_path
          [of "\<lparr>arg_range_subset = None, arg_subsets = None, arg_bbox = None,
                arg_datetime = None, arg_format = Some ''netcdf''\<rparr>"
              example_env example_provider "''x''" "''/data/RCP2.6/tas_pctl50_DJF.nc''"]
        omitted_range_subset_never_fast_path
          [of "\<lparr>arg_range_subset = Some [], arg_subsets = None, arg_bbox = None,
                arg_datetime = None, arg_format = Some ''netcdf''\<rparr>"
              example_env example_provider "''x''" "''/data/RCP2.6/tas_pctl50_DJF.nc''"]
        omitted_range_subset_never_fast_path
          [of "\<lparr>arg_range_subset = Some [], arg_subsets = None, arg_bbox = None,
                arg_datetime = None, arg_format = Some ''zarr''\<rparr>"
              example_env example_mam "''x''" "''x''"] n
  show ?thesis
    by (simp add: subsets_of_def format_of_def facet_pass_none example_provider_def
          example_mam_def example_env_def example_files_def has_key_def)
qed

text \<open>
  C6. When the facet pass raises nothing, the fast path is not taken and the
  subsetting gives a dataset that has both spatial coordinates, one of them with no
  sample, the query raises the no-data error, which is not the query error.
\<close>

theorem empty_extent_is_no_data:
  assumes "facet_pass e p subs = (p', Inr subs')"
    and "\<not> fast_path range_subset subs' fmt"
    and "select_data e p' range_subset subs' box datetime = Inr d"
    and "map_of (coords d) (x_field p') = Some cx"
    and "map_of (coords d) (y_field p') = Some cy"
    and "coord_values cx = [] \<or> coord_values cy = []"
  shows "query e p range_subset subs box datetime fmt = (Inl ProviderNoDataError, p')
         \<and> ProviderNoDataError \<noteq> ProviderQueryError"
proof -
  from assms(4-6) have "check_no_data p' d = Inl ProviderNoDataError"
    by (auto simp: check_no_data_def getkey_def)
  with assms(1-3) show ?thesis
    by (simp add: query_def respond_def)
qed

theorem empty_extent_is_no_data_witness:
  "facet_pass example_env example_provider [] = (example_provider, Inr [])
   \<and> \<not> fast_path [''tas''] [] ''json''
   \<and> select_data example_env example_provider [''tas''] []
        [PInt 100, PInt 48, PInt 200, PInt 50] None = Inr example_empty
   \<and> map_of (coords example_empty) (x_field example_provider)
       = Some \<lparr>units = Some ''degrees_east'', coord_values = []\<rparr>
   \<and> map_of (coords example_empty) (y_field example_provider)
       = Some \<lparr>units = Some ''degrees_north'', coord_values = [50, 49, 48]\<rparr>
   \<and> query example_env example_provider [''tas''] []
        [PInt 100, PInt 48, PInt 200, PInt 50] None ''json''
       = (Inl ProviderNoDataError, example_provider)"
proof -
  have f: "facet_pass example_env example_provider [] = (example_provider, Inr [])"
    by (simp add: facet_pass_none)
  have n: "\<not> fast_path [''tas''] [] ''json''"
    by (simp add: fast_path_def)
  have s: "select_data example_env example_provider [''tas''] []
             [PInt 100, PInt 48, PInt 200, PInt 50] None = Inr example_empty"
    by (simp add: example_empty_def model_defs example_defs)
  have x: "map_of (coords example_empty) (x_field example_provider)
             = Some \<lparr>units = Some ''degrees_east'', coord_values = []\<rparr>"
    by (simp add: example_empty_def example_provider_def)
  have y: "map_of (coords example_empty) (y_field example_provider)
             = Some \<lparr>units = Some ''degrees_north'', coord_values = [50, 49, 48]\<rparr>"
    by (simp add: example_empty_def example_provider_def)
  from empty_extent_is_no_data [OF f n s x y] f n s x y show ?thesis
    by simp
qed

section \<open>The slices of the named axes\<close>

lemma subset_slice_Inr:
  assumes "subset_slice d key val = Inr sl"
  shows "\<exists>c lo hi. map_of (coords d) key = Some c \<and> coord_values c \<noteq> []
           \<and> item val 0 = Inr lo \<and> item val 1 = Inr hi
           \<and> sl = (if hd (coord_values c) > last (coord_values c)
                   then Slice hi lo else Slice lo hi)"
proof -
  from assms obtain c first final where
    c: "getkey (coords d) key = Inr c"
    and f: "item (coord_values c) 0 = Inr first" "item_last (coord_values c) = Inr final"
    and r: "(if first > final
             then and_then (item val 1) (\<lambda>v1. and_then (item val 0) (\<lambda>v0. Inr (Slice v1 v0)))
             else and_then (item val 0) (\<lambda>v0. and_then (item val 1) (\<lambda>v1. Inr (Slice v0 v1))))
            = Inr sl"
    unfolding subset_slice_def and_then_Inr_iff by blast
  from c have m: "map_of (coords d) key = Some c"
    by (simp add: getkey_def split: option.splits)
  from f have n: "coord_values c \<noteq> []" "first = hd (coord_values c)"
    "final = last (coord_values c)"
    by (auto simp: item_def item_last_def hd_conv_nth split: if_splits)
  from r obtain lo hi where "item val 0 = Inr lo" "item val 1 = Inr hi"
    "sl = (if first > final then Slice hi lo else Slice lo hi)"
    by (auto simp: and_then_Inr_iff split: if_splits)
  with m n show ?thesis by auto
qed

lemma subset_slices_lookup:
  assumes "subset_slices d subs qp0 = Inr qp" "distinct (map fst subs)"
  shows "(\<forall>key val. map_of subs key = Some val \<longrightarrow>
            (\<exists>sl. subset_slice d key val = Inr sl \<and> qp key = Some sl))
         \<and> (\<forall>key. map_of subs key = None \<longrightarrow> qp key = qp0 key)"
  using assms
proof (induction subs arbitrary: qp0)
  case Nil
  then show ?case by simp
next
  case (Cons kv rest)
  obtain k v where kv: "kv = (k, v)" by (cases kv)
  from Cons.prems(1) kv obtain sl where
    sl: "subset_slice d k v = Inr sl"
    and rest: "subset_slices d rest (qp0(k \<mapsto> sl)) = Inr qp"
    by (auto split: sum.splits)
  from Cons.prems(2) kv have dist: "distinct (map fst rest)" and fresh: "map_of rest k = None"
    by (auto simp: map_of_eq_None_iff)
  from Cons.IH [OF rest dist] have
    ih1: "\<And>key val. map_of rest key = Some val \<Longrightarrow>
            \<exists>sl. subset_slice d key val = Inr sl \<and> qp key = Some sl"
    and ih2: "\<And>key. map_of rest key = None \<Longrightarrow> qp key = (qp0(k \<mapsto> sl)) key"
    by blast+
  show ?case
  proof (intro conjI allI impI)
    fix key val
    assume a: "map_of (kv # rest) key = Some val"
    show "\<exists>sl. subset_slice d key val = Inr sl \<and> qp key = Some sl"
    proof (cases "key = k")
      case True
      with a kv have "val = v" by simp
      with True sl ih2 [OF fresh] show ?thesis by simp
    next
      case False
      with a kv have "map_of rest key = Some val" by simp
      then show ?thesis by (rule ih1)
    qed
  next
    fix key
    assume "map_of (kv # rest) key = None"
    with kv have "key \<noteq> k" "map_of rest key = None"
      by (auto split: if_splits)
    with ih2 [of key] show "qp key = qp0 key" by simp
  qed
qed

lemma bbox_slices_Inr:
  assumes "bbox_slices p subs box qp1 = Inr qp2"
  shows "(box = [] \<longrightarrow> qp2 = qp1)
         \<and> (\<forall>key. key \<noteq> x_axis_label (coverage_properties p)
                \<and> key \<noteq> y_axis_label (coverage_properties p) \<longrightarrow> qp2 key = qp1 key)"
  using assms
  by (auto simp: bbox_slices_def and_then_Inr_iff split: if_splits)

lemma datetime_slices_Inr:
  assumes "datetime_slices p subs datetime qp2 = Inr qp"
  shows "(datetime = None \<and> qp = qp2)
         \<or> (\<not> has_key subs (time_axis_label (coverage_properties p))
             \<and> (\<forall>key. key \<noteq> time_field p \<longrightarrow> qp key = qp2 key))"
  using assms
  by (auto simp: datetime_slices_def split: option.splits if_splits list.splits)

lemma facet_distinct:
  assumes "facet key body p subs = Inr (p', subs')" "distinct (map fst subs)"
  shows "distinct (map fst subs')"
  using assms
  by (auto simp: facet_def pop_def and_then_Inr_iff distinct_map_filter split: option.splits)

lemma facet_pass_distinct:
  assumes "facet_pass e p subs0 = (p', Inr subs)" "distinct (map fst subs0)"
  shows "distinct (map fst subs)"
proof -
  from assms(1) obtain p1 s1 p2 s2 where
    "facet ''scenario'' (scenario_body e) p subs0 = Inr (p1, s1)"
    "facet ''percentile'' (percentile_body e) p1 s1 = Inr (p2, s2)"
    "facet ''season'' (season_body e) p2 s2 = Inr (p', subs)"
    by (auto simp: facet_pass_def split: sum.splits prod.splits)
  with assms(2) show ?thesis
    by (blast dest: facet_distinct)
qed

text \<open>
  C4, as amended. Take a query on a reachable provider, with a dict of subsets, whose
  facet pass and choice of variables raise nothing, whose subsetting block runs (the x,
  y or time axis is named, or a bbox or a datetime is given) and builds its mapping
  \<^verbatim>\<open>query_params\<close> without raising. Then the selection is applied with that mapping: the
  subsetting stage is \<^verbatim>\<open>data.loc[query_params]\<close>, a query error when it raises, and the
  query goes on from its result. In the mapping, every axis named in \<^verbatim>\<open>subsets\<close>, other
  than the x and y axes when a bbox is given, has the slice of its first two requested
  values \<open>lo\<close> and \<open>hi\<close>, as \<open>(hi, lo)\<close> when the first stored sample of the axis is
  greater than the last, and as \<open>(lo, hi)\<close> otherwise.
\<close>

theorem named_axis_slice_orientation:
  assumes "reachable e p"
    and "distinct (map fst subs0)"
    and "facet_pass e p subs0 = (p', Inr subs)"
    and "handle p' = Some ds"
    and "getitem e ds range_subset = Some d"
    and "wants_subset p' subs box datetime"
    and "build_query_params p' d subs box datetime = Inr qp"
    and "map_of subs key = Some val"
    and "box = [] \<or> (key \<noteq> x_axis_label (coverage_properties p')
                      \<and> key \<noteq> y_axis_label (coverage_properties p'))"
  shows "(\<exists>c lo hi. map_of (coords d) key = Some c \<and> coord_values c \<noteq> []
            \<and> item val 0 = Inr lo \<and> item val 1 = Inr hi
            \<and> qp key = Some (if hd (coord_values c) > last (coord_values c)
                              then Slice hi lo else Slice lo hi))
         \<and> select_data e p' range_subset subs box datetime
             = (case loc e d qp of
                  None \<Rightarrow> Inl ProviderQueryError
                | Some d' \<Rightarrow> Inr d')
         \<and> query e p range_subset subs0 box datetime fmt
             = (case loc e d qp of
                  None \<Rightarrow> Inl ProviderQueryError
                | Some d' \<Rightarrow> respond e p' d' fmt range_subset,
                p')"
proof -
  have p': "p' = snd (query e p range_subset subs0 box datetime fmt)"
    using assms(3) by (simp add: query_provider)
  have "reachable e p'"
    unfolding p' using assms(1) by (rule reachable.queried)
  then have t: "time_axis_label (coverage_properties p') = time_field p'"
    using reachable_invariant by blast
  have dist: "distinct (map fst subs)"
    using assms(3,2) by (rule facet_pass_distinct)
  from assms(7) obtain qp1 qp2 where
    s1: "subset_slices d subs Map.empty = Inr qp1"
    and s2: "bbox_slices p' subs box qp1 = Inr qp2"
    and s3: "datetime_slices p' subs datetime qp2 = Inr qp"
    unfolding build_query_params_def and_then_Inr_iff by blast
  from subset_slices_lookup [OF s1 dist] assms(8) obtain sl where
    sl: "subset_slice d key val = Inr sl" "qp1 key = Some sl"
    by blast
  from bbox_slices_Inr [OF s2] assms(9) have k2: "qp2 key = qp1 key"
    by auto
  have k3: "qp key = qp2 key"
  proof (cases "datetime = None \<and> qp = qp2")
    case True
    then show ?thesis by simp
  next
    case False
    with datetime_slices_Inr [OF s3] t have
      n: "\<not> has_key subs (time_field p')"
      and o: "\<forall>k. k \<noteq> time_field p' \<longrightarrow> qp k = qp2 k"
      by auto
    from n assms(8) have "key \<noteq> time_field p'"
      by (auto simp: has_key_def)
    with o show ?thesis by simp
  qed
  have oriented: "\<exists>c lo hi. map_of (coords d) key = Some c \<and> coord_values c \<noteq> []
            \<and> item val 0 = Inr lo \<and> item val 1 = Inr hi
            \<and> qp key = Some (if hd (coord_values c) > last (coord_values c)
                              then Slice hi lo else Slice lo hi)"
    using subset_slice_Inr [OF sl(1)] sl(2) k2 k3 by auto
  have sel: "select_data e p' range_subset subs box datetime
               = (case loc e d qp of
                    None \<Rightarrow> Inl ProviderQueryError
                  | Some d' \<Rightarrow> Inr d')"
    using assms(4-7) by (simp add: select_data_def)
  from assms(8) have "subs \<noteq> []"
    by auto
  then have "\<not> fast_path range_subset subs fmt"
    by (simp add: fast_path_def)
  with assms(3) sel have "query e p range_subset subs0 box datetime fmt
             = (case loc e d qp of
                  None \<Rightarrow> Inl ProviderQueryError
                | Some d' \<Rightarrow> respond e p' d' fmt range_subset,
                p')"
    by (simp add: query_def split: option.splits)
  with oriented sel show ?thesis
    by blast
qed

theorem named_axis_slice_orientation_witness:
  "reachable example_env example_provider
   \<and> distinct (map fst [(''lon'', [PInt 0, PInt 2]), (''lat'', [PInt 48, PInt 50])])
   \<and> facet_pass example_env example_provider
        [(''lon'', [PInt 0, PInt 2]), (''lat'', [PInt 48, PInt 50])]
       = (example_provider, Inr [(''lon'', [PInt 0, PInt 2]), (''lat'', [PInt 48, PInt 50])])
   \<and> handle example_provider = Some example_dataset
   \<and> getitem example_env example_dataset [''tas'']
       = Some (example_dataset\<lparr>variables := variables example_empty\<rparr>)
   \<and> wants_subset example_provider
        [(''lon'', [PInt 0, PInt 2]), (''lat'', [PInt 48, PInt 50])] [] None
   \<and> build_query_params example_provider
        (example_dataset\<lparr>variables := variables example_empty\<rparr>)
        [(''lon'', [PInt 0, PInt 2]), (''lat'', [PInt 48, PInt 50])] [] None
       = Inr [''lon'' \<mapsto> Slice (PInt 0) (PInt 2), ''lat'' \<mapsto> Slice (PInt 50) (PInt 48)]
   \<and> map_of [(''lon'', [PInt 0, PInt 2]), (''lat'', [PInt 48, PInt 50])] ''lat''
       = Some [PInt 48, PInt 50]
   \<and> map_of (coords (example_dataset\<lparr>variables := variables example_empty\<rparr>)) ''lat''
       = Some \<lparr>units = Some ''degrees_north'', coord_values = [50, 49, 48]\<rparr>
   \<and> [''lon'' \<mapsto> Slice (PInt 0) (PInt 2), ''lat'' \<mapsto> Slice (PInt 50) (PInt 48)] ''lat''
       = Some (Slice (PInt 50) (PInt 48))
   \<and> loc example_env (example_dataset\<lparr>variables := variables example_empty\<rparr>)
        [''lon'' \<mapsto> Slice (PInt 0) (PInt 2), ''lat'' \<mapsto> Slice (PInt 50) (PInt 48)]
       = Some (example_empty
                 \<lparr>coords :=
                    [(''lon'', \<lparr>units = Some ''degrees_east'', coord_values = [0, 1, 2]\<rparr>),
                     (''lat'', \<lparr>units = Some ''degrees_north'', coord_values = [50, 49, 48]\<rparr>),
                     (''time'', \<lparr>units = None, coord_values = [432, 444]\<rparr>)],
                  dims := [(''time'', 2), (''lat'', 3), (''lon'', 3)]\<rparr>)
   \<and> select_data example_env example_provider [''tas'']
        [(''lon'', [PInt 0, PInt 2]), (''lat'', [PInt 48, PInt 50])] [] None
       = Inr (example_empty
                 \<lparr>coords :=
                    [(''lon'', \<lparr>units = Some ''degrees_east'', coord_values = [0, 1, 2]\<rparr>),
                     (''lat'', \<lparr>units = Some ''degrees_north'', coord_values = [50, 49, 48]\<rparr>),
                     (''time'', \<lparr>units = None, coord_values = [432, 444]\<rparr>)],
                  dims := [(''time'', 2), (''lat'', 3), (''lon'', 3)]\<rparr>)
   \<and> query example_env example_provider [''tas'']
        [(''lon'', [PInt 0, PInt 2]), (''lat'', [PInt 48, PInt 50])] [] None ''zarr''
       = (Inr (Zarr ''zarr store''), example_provider)"
proof -
  have d: "distinct (map fst [(''lon'', [PInt 0, PInt 2]), (''lat'', [PInt 48, PInt 50])])"
    by simp
  have f: "facet_pass example_env example_provider
             [(''lon'', [PInt 0, PInt 2]), (''lat'', [PInt 48, PInt 50])]
           = (example_provider, Inr [(''lon'', [PInt 0, PInt 2]), (''lat'', [PInt 48, PInt 50])])"
    by (simp add: facet_pass_none)
  have h: "handle example_provider = Some example_dataset"
    by (simp add: example_provider_def)
  have g: "getitem example_env example_dataset [''tas'']
             = Some (example_dataset\<lparr>variables := variables example_empty\<rparr>)"
    by (simp add: example_empty_def model_defs example_defs)
  have w: "wants_subset example_provider
             [(''lon'', [PInt 0, PInt 2]), (''lat'', [PInt 48, PInt 50])] [] None"
    by (simp add: wants_subset_def has_key_def example_provider_def)
  have b: "build_query_params example_provider
             (example_dataset\<lparr>variables := variables example_empty\<rparr>)
             [(''lon'', [PInt 0, PInt 2]), (''lat'', [PInt 48, PInt 50])] [] None
           = Inr [''lon'' \<mapsto> Slice (PInt 0) (PInt 2), ''lat'' \<mapsto> Slice (PInt 50) (PInt 48)]"
    by (simp add: model_defs example_defs)
  have m: "map_of [(''lon'', [PInt 0, PInt 2]), (''lat'', [PInt 48, PInt 50])] ''lat''
             = Some [PInt 48, PInt 50]"
    by simp
  have c: "map_of (coords (example_dataset\<lparr>variables := variables example_empty\<rparr>)) ''lat''
             = Some \<lparr>units = Some ''degrees_north'', coord_values = [50, 49, 48]\<rparr>"
    by (simp add: example_dataset_def)
  have l: "loc example_env (example_dataset\<lparr>variables := variables example_empty\<rparr>)
        [''lon'' \<mapsto> Slice (PInt 0) (PInt 2), ''lat'' \<mapsto> Slice (PInt 50) (PInt 48)]
       = Some (example_empty
                 \<lparr>coords :=
                    [(''lon'', \<lparr>units = Some ''degrees_east'', coord_values = [0, 1, 2]\<rparr>),
                     (''lat'', \<lparr>units = Some ''degrees_north'', coord_values = [50, 49, 48]\<rparr>),
                     (''time'', \<lparr>units = None, coord_values = [432, 444]\<rparr>)],
                  dims := [(''time'', 2), (''lat'', 3), (''lon'', 3)]\<rparr>)"
    by (simp add: example_empty_def model_defs example_defs)
  have r: "respond example_env example_provider
             (example_empty
                 \<lparr>coords :=
                    [(''lon'', \<lparr>units = Some ''degrees_east'', coord_values = [0, 1, 2]\<rparr>),
                     (''lat'', \<lparr>units = Some ''degrees_north'', coord_values = [50, 49, 48]\<rparr>),
                     (''time'', \<lparr>units = None, coord_values = [432, 444]\<rparr>)],
                  dims := [(''time'', 2), (''lat'', 3), (''lon'', 3)]\<rparr>) ''zarr'' [''tas'']
           = Inr (Zarr ''zarr store'')"
    by (simp add: example_empty_def model_defs example_defs)
  from named_axis_slice_orientation [OF example_reachable d f h g w b m, of "''zarr''"]
    example_reachable d f h g w b m c l r
  show ?thesis
    by (auto simp: item_def)
qed

text \<open>
  C4 as stated fails. A query that names only a pressure axis, with no bbox and no
  datetime, does not enter the subsetting block: no slice is applied, all three levels
  stay in the data, and the query succeeds even where every selection would raise.
\<close>

theorem named_axis_ignored_counterexample:
  "init (example_env\<lparr>loc := (\<lambda>d query_params. None)\<rparr>) example_levels_def
     = Inr example_levels_provider
   \<and> map_of (coords example_levels) ''plev''
       = Some \<lparr>units = Some ''hPa'', coord_values = [1000, 850, 500]\<rparr>
   \<and> select_data (example_env\<lparr>loc := (\<lambda>d query_params. None)\<rparr>) example_levels_provider
        [''tas''] [(''plev'', [PInt 500, PInt 850])] [] None
       = Inr example_levels
   \<and> query (example_env\<lparr>loc := (\<lambda>d query_params. None)\<rparr>) example_levels_provider
        [''tas''] [(''plev'', [PInt 500, PInt 850])] [] None ''zarr''
       = (Inr (Zarr ''zarr store''), example_levels_provider)"
  by (simp add: example_levels_def_def example_levels_provider_def model_defs example_defs)

section \<open>The bbox and the named axes\<close>

lemma bbox_slices_both_named:
  assumes "box \<noteq> []"
    and "has_key subs (x_axis_label (coverage_properties p))"
    and "has_key subs (y_axis_label (coverage_properties p))"
  shows "bbox_slices p subs box qp = Inl ProviderQueryError"
  using assms by (simp add: bbox_slices_def)

text \<open>
  C3, as amended. When the facet pass, the choice of the variables and the loop over
  the named subsets raise nothing, a query with a bbox that is not empty and with both
  the x axis and the y axis named in \<^verbatim>\<open>subsets\<close> raises a query error. The subsetting
  stage ends in that error whatever the selection of the array library would do: no
  selection is applied.
\<close>

theorem bbox_with_both_axes_rejected:
  assumes "facet_pass e p subs = (p', Inr subs')"
    and "handle p' = Some ds"
    and "getitem e ds range_subset = Some d"
    and "subset_slices d subs' Map.empty = Inr qp"
    and "box \<noteq> []"
    and "has_key subs' (x_axis_label (coverage_properties p'))"
    and "has_key subs' (y_axis_label (coverage_properties p'))"
  shows "query e p range_subset subs box datetime fmt = (Inl ProviderQueryError, p')
         \<and> (\<forall>l. select_data (e\<lparr>loc := l\<rparr>) p' range_subset subs' box datetime
                = Inl ProviderQueryError)"
proof -
  have b: "build_query_params p' d subs' box datetime = Inl ProviderQueryError"
    using assms(4) bbox_slices_both_named [OF assms(5-7)]
    by (simp add: build_query_params_def)
  have w: "wants_subset p' subs' box datetime"
    using assms(5) by (simp add: wants_subset_def)
  have s: "select_data (e\<lparr>loc := l\<rparr>) p' range_subset subs' box datetime
             = Inl ProviderQueryError" for l
    using assms(2,3) b w by (simp add: select_data_def)
  from s [of "loc e"] have s0: "select_data e p' range_subset subs' box datetime
             = Inl ProviderQueryError"
    by simp
  from assms(6) have "subs' \<noteq> []"
    by (auto simp: has_key_def)
  then have "\<not> fast_path range_subset subs' fmt"
    by (simp add: fast_path_def)
  with assms(1) s0 s show ?thesis
    by (simp add: query_def)
qed

theorem bbox_with_both_axes_rejected_witness:
  "facet_pass example_env example_provider
      [(''lon'', [PInt 0, PInt 2]), (''lat'', [PInt 48, PInt 50])]
     = (example_provider, Inr [(''lon'', [PInt 0, PInt 2]), (''lat'', [PInt 48, PInt 50])])
   \<and> handle example_provider = Some example_dataset
   \<and> getitem example_env example_dataset [''tas'']
       = Some (example_dataset\<lparr>variables := variables example_empty\<rparr>)
   \<and> subset_slices (example_dataset\<lparr>variables := variables example_empty\<rparr>)
        [(''lon'', [PInt 0, PInt 2]), (''lat'', [PInt 48, PInt 50])] Map.empty
       = Inr [''lon'' \<mapsto> Slice (PInt 0) (PInt 2), ''lat'' \<mapsto> Slice (PInt 50) (PInt 48)]
   \<and> [PInt 1, PInt 48, PInt 3, PInt 50] \<noteq> []
   \<and> has_key [(''lon'', [PInt 0, PInt 2]), (''lat'', [PInt 48, PInt 50])]
        (x_axis_label (coverage_properties example_provider))
   \<and> has_key [(''lon'', [PInt 0, PInt 2]), (''lat'', [PInt 48, PInt 50])]
        (y_axis_label (coverage_properties example_provider))
   \<and> query example_env example_provider [''tas'']
        [(''lon'', [PInt 0, PInt 2]), (''lat'', [PInt 48, PInt 50])]
        [PInt 1, PInt 48, PInt 3, PInt 50] None ''json''
       = (Inl ProviderQueryError, example_provider)"
proof -
  have f: "facet_pass example_env example_provider
             [(''lon'', [PInt 0, PInt 2]), (''lat'', [PInt 48, PInt 50])]
           = (example_provider, Inr [(''lon'', [PInt 0, PInt 2]), (''lat'', [PInt 48, PInt 50])])"
    by (simp add: facet_pass_none)
  have h: "handle example_provider = Some example_dataset"
    by (simp add: example_provider_def)
  have g: "getitem example_env example_dataset [''tas'']
             = Some (example_dataset\<lparr>variables := variables example_empty\<rparr>)"
    by (simp add: example_empty_def model_defs example_defs)
  have s: "subset_slices (example_dataset\<lparr>variables := variables example_empty\<rparr>)
             [(''lon'', [PInt 0, PInt 2]), (''lat'', [PInt 48, PInt 50])] Map.empty
           = Inr [''lon'' \<mapsto> Slice (PInt 0) (PInt 2), ''lat'' \<mapsto> Slice (PInt 50) (PInt 48)]"
    by (simp add: model_defs example_defs)
  have b: "[PInt 1, PInt 48, PInt 3, PInt 50] \<noteq> []"
    by simp
  have x: "has_key [(''lon'', [PInt 0, PInt 2]), (''lat'', [PInt 48, PInt 50])]
             (x_axis_label (coverage_properties example_provider))"
    by (simp add: has_key_def example_provider_def)
  have y: "has_key [(''lon'', [PInt 0, PInt 2]), (''lat'', [PInt 48, PInt 50])]
             (y_axis_label (coverage_properties example_provider))"
    by (simp add: has_key_def example_provider_def)
  from bbox_with_both_axes_rejected [OF f h g s b x y, of None "''json''"] f h g s b x y
  show ?thesis by simp
qed

text \<open>
  C3 as stated fails. With a bbox and only the x axis named there is no error: the
  slices of the bbox are used and the named range is dropped. And with both axes
  named, a named range of one value ends the loop in an \<^verbatim>\<open>IndexError\<close> before the bbox is
  looked at.
\<close>

theorem bbox_with_one_axis_counterexample:
  "has_key [(''lon'', [PInt 0, PInt 2])] (x_axis_label (coverage_properties example_provider))
   \<and> select_data example_env example_provider [''tas''] [(''lon'', [PInt 0, PInt 2])]
        [PInt 1, PInt 48, PInt 3, PInt 50] None
      = Inr (example_empty
               \<lparr>coords :=
                  [(''lon'', \<lparr>units = Some ''degrees_east'', coord_values = [1, 2, 3]\<rparr>),
                   (''lat'', \<lparr>units = Some ''degrees_north'', coord_values = [50, 49, 48]\<rparr>),
                   (''time'', \<lparr>units = None, coord_values = [432, 444]\<rparr>)],
                dims := [(''time'', 2), (''lat'', 3), (''lon'', 3)]\<rparr>)
   \<and> fst (query example_env example_provider [''tas''] [(''lon'', [PInt 0, PInt 2])]
          [PInt 1, PInt 48, PInt 3, PInt 50] None ''zarr'')
      = Inr (Zarr ''zarr store'')
   \<and> fst (query example_env example_provider [''tas'']
          [(''lon'', [PInt 0, PInt 2]), (''lat'', [PInt 50])]
          [PInt 1, PInt 48, PInt 3, PInt 50] None ''zarr'')
      = Inl IndexError"
  by (simp add: example_empty_def model_defs example_defs)

end
